theory Spec2Isabelle
  imports Main "HOL-Library.Char_ord" "HOL-Library.List_Lexorder"
begin

section \<open>The object-graph loader of \<open>saved_model/load.py\<close>\<close>

text \<open>
  A shallow embedding of the class \<open>Loader\<close>, of \<open>_WrapperFunction\<close> and of
  \<open>load_internal\<close>. Python objects are addresses into a heap, so that \<open>is\<close> is
  equality of addresses; every \<open>raise\<close> of the source is a value of \<open>error\<close>; the
  collaborators the file imports (the constructors of variables, assets and functions,
  the checkpoint saver, the distribution context) are parameters.
\<close>

subsection \<open>Errors\<close>

text \<open>
  The source raises \<open>ValueError\<close>, \<open>TypeError\<close>, \<open>NotImplementedError\<close> and
  \<open>FileNotFoundError\<close> with fixed messages; each message is one constructor, named as
  the design document names the failure. \<open>IndexError\<close>, \<open>KeyError\<close>,
  \<open>AttributeError\<close> and \<open>BuiltinTypeError\<close> are the failures of Python's own
  indexing, dictionary lookup, attribute access and assignment to a built-in type;
  \<open>RuntimeError\<close> is what the stubs of \<open>_RestoredResource\<close> raise;
  \<open>NotFoundError\<close> is \<open>errors.NotFoundError\<close> of the file system;
  \<open>ExternalError\<close> is a failure raised inside a collaborator.
\<close>

datatype error =
    MalformedPathError
  | UnknownChildError string
  | FilterTypeError
  | TypeErrorNotTrackable string
  | UnknownNodeKindError
  | MissingDependencyError string
  | CaptureResolutionError
  | UnsupportedRestoreTarget
  | TagMismatchError
  | V1FiltersError
  | NoMatchError
  | UnmatchedObjectsError
  | FileNotFoundError
  | IndexError
  | KeyError
  | AttributeError
  | BuiltinTypeError
  | RuntimeError
  | NotFoundError
  | ExternalError nat

subsection \<open>The serialized graph\<close>

text \<open>
  \<open>SavedObject\<close>: the children (\<open>local_name\<close>, \<open>node_id\<close>), the slot variables, the
  saveable objects and the \<open>kind\<close> oneof, which may be unset (\<open>WhichOneof\<close> then
  returns \<open>None\<close>). Node ids are indices into the node list.
\<close>

datatype kind =
    UserObject | Asset | Function | BareConcreteFunction
  | Variable | Constant | Resource | CapturedTensor | KindNotSet

record object_reference =
  local_name :: string
  node_id :: nat

record slot_variable_reference =
  original_variable_node_id :: nat
  slot_name :: string
  slot_variable_node_id :: nat

record saveable_object =
  save_function :: nat
  restore_function :: nat

record saved_object =
  children :: "object_reference list"
  slot_variables :: "slot_variable_reference list"
  saveable_objects :: "(string \<times> saveable_object) list"
  kind :: kind

subsection \<open>Dotted paths\<close>

text \<open>\<open>str.split(".")\<close>: never the empty list, \<open>"".split(".") = [""]\<close>.\<close>

fun split_dot :: "string \<Rightarrow> string list" where
  "split_dot [] = [[]]"
| "split_dot (c # cs) =
     (if c = CHR ''.'' then [] # split_dot cs
      else (case split_dot cs of
              [] \<Rightarrow> [[c]]
            | w # ws \<Rightarrow> (c # w) # ws))"

text \<open>\<open>".".join(xs)\<close>.\<close>

fun join_dot :: "string list \<Rightarrow> string" where
  "join_dot [] = []"
| "join_dot [x] = x"
| "join_dot (x # y # ys) = x @ ''.'' @ join_dot (y # ys)"

text \<open>
  \<open>Loader._find_node_child\<close>: the first child reference with the local name, else
  \<open>ValueError("unable to find node {path}")\<close>. Indexing \<open>self._proto.nodes\<close> out of
  range raises.
\<close>

definition find_node_child ::
  "saved_object list \<Rightarrow> nat \<Rightarrow> string \<Rightarrow> string \<Rightarrow> error + nat" where
  "find_node_child nodes nid child_name path =
     (if nid < length nodes then
        (case find (\<lambda>reference. local_name reference = child_name)
                (children (nodes ! nid)) of
           Some reference \<Rightarrow> Inr (node_id reference)
         | None \<Rightarrow> Inl (UnknownChildError path))
      else Inl IndexError)"

text \<open>
  The loop \<open>for n, name in enumerate(node_path[1:])\<close> of
  \<open>_convert_node_paths_to_ints\<close>: \<open>n\<close> counts the names already walked, and the path
  handed to \<open>_find_node_child\<close> is \<open>".".join(node_path[:n+2])\<close>.
\<close>

fun walk_names ::
  "saved_object list \<Rightarrow> string list \<Rightarrow> nat \<Rightarrow> string list \<Rightarrow> nat \<Rightarrow> error + nat" where
  "walk_names nodes node_path n [] int_node_id = Inr int_node_id"
| "walk_names nodes node_path n (name # names) int_node_id =
     (case find_node_child nodes int_node_id name (join_dot (take (n + 2) node_path)) of
        Inl e \<Rightarrow> Inl e
      | Inr child \<Rightarrow> walk_names nodes node_path (Suc n) names child)"

text \<open>The body of that loop for one string of \<open>node_filters\<close>.\<close>

definition resolve_path :: "saved_object list \<Rightarrow> string \<Rightarrow> error + nat" where
  "resolve_path nodes path =
     (let node_path = split_dot path in
      if hd node_path \<noteq> ''root'' then Inl MalformedPathError
      else walk_names nodes node_path 0 (tl node_path) 0)"

subsection \<open>Python values, the heap and the filters\<close>

text \<open>
  A Python value the loader handles is \<open>None\<close>, a reference to an object of the heap, or
  the output tensor of an operation of the default graph (by the operation's index), or a
  value the loader only passes on (a version string, the debug information).
  \<open>x is y\<close> is equality of these values.
\<close>

datatype pyobj = PyNone | Ref nat | OpOutput nat | Opaque nat

text \<open>
  The setters the source uses: \<open>setattr\<close>, \<open>_setattr_and_track\<close>, the no-op
  \<open>lambda *args: None\<close>, and a setter supplied from outside (by a registered
  deserializer or in a filter dictionary), known by a number.
\<close>

datatype setter = Setattr | SetattrAndTrack | NoopSetter | ExtSetter nat

text \<open>
  What the loader observes of an object: its type, the \<open>isinstance\<close> tests and
  predicates the source applies, its tracked dependencies (\<open>_lookup_dependency\<close>) and
  its instance attributes.
\<close>

record py_object =
  py_class :: nat
  is_trackable :: bool
  is_data_structure :: bool
  is_distributed_variable :: bool
  is_resource_variable :: bool
  is_asset :: bool
  is_tf_type :: bool
  is_capturable_resource :: bool
  is_lookup_interface :: bool
  dependencies :: "string \<rightharpoonup> pyobj"
  attributes :: "string \<rightharpoonup> pyobj"

type_synonym heap = "nat \<rightharpoonup> py_object"

text \<open>
  An \<open>isinstance\<close> test or predicate on a value: \<open>None\<close> passes none, and a tensor of
  the graph is not an object of the heap.
\<close>

definition py_is :: "(py_object \<Rightarrow> bool) \<Rightarrow> heap \<Rightarrow> pyobj \<Rightarrow> bool" where
  "py_is test h v =
     (case v of
        Ref a \<Rightarrow> (case h a of Some ob \<Rightarrow> test ob | None \<Rightarrow> False)
      | _ \<Rightarrow> False)"

text \<open>\<open>tensor_util.is_tf_type\<close>: a tensor of the graph is one.\<close>

definition py_is_tf_type :: "heap \<Rightarrow> pyobj \<Rightarrow> bool" where
  "py_is_tf_type h v = (case v of OpOutput k \<Rightarrow> True | _ \<Rightarrow> py_is is_tf_type h v)"

text \<open>
  \<open>node_filters\<close>: \<open>None\<close>, a list, or a dictionary (its items in order). An element
  is a string or something else; a dictionary value is an object, \<open>None\<close>, or a pair
  (object, setter).
\<close>

datatype filter_key = Str string | NotStr

datatype filter_value = Value pyobj | Pair pyobj setter

datatype filters = FilterList "filter_key list" | FilterDict "(filter_key \<times> filter_value) list"

fun filter_keys :: "filters \<Rightarrow> filter_key list" where
  "filter_keys (FilterList ks) = ks"
| "filter_keys (FilterDict kvs) = map fst kvs"

text \<open>The strings among the elements: all of them once the conversion below has passed.\<close>

fun filter_paths :: "filter_key list \<Rightarrow> string list" where
  "filter_paths [] = []"
| "filter_paths (Str path # ks) = path # filter_paths ks"
| "filter_paths (NotStr # ks) = filter_paths ks"

text \<open>\<open>Loader._convert_node_paths_to_ints\<close>: the loop over \<open>node_filters\<close>.\<close>

fun convert_loop ::
  "saved_object list \<Rightarrow> filter_key list \<Rightarrow> (string \<rightharpoonup> nat) \<Rightarrow> error + (string \<rightharpoonup> nat)" where
  "convert_loop nodes [] path_to_int = Inr path_to_int"
| "convert_loop nodes (Str path # ks) path_to_int =
     (case resolve_path nodes path of
        Inl e \<Rightarrow> Inl e
      | Inr int_node_id \<Rightarrow> convert_loop nodes ks (path_to_int(path \<mapsto> int_node_id)))"
| "convert_loop nodes (NotStr # ks) path_to_int = Inl FilterTypeError"

definition convert_node_paths_to_ints ::
  "saved_object list \<Rightarrow> filters option \<Rightarrow> error + (string \<rightharpoonup> nat) option" where
  "convert_node_paths_to_ints nodes node_filters =
     (case node_filters of
        None \<Rightarrow> Inr None
      | Some fs \<Rightarrow>
          (case convert_loop nodes (filter_keys fs) Map.empty of
             Inl e \<Rightarrow> Inl e
           | Inr path_to_int \<Rightarrow> Inr (Some path_to_int)))"

text \<open>
  The loop of \<open>Loader.__init__\<close> over \<open>filters.items()\<close> when the filters are a
  dictionary: a pair is stored as it is, another value with \<open>setattr\<close>.
\<close>

fun preload ::
  "(string \<rightharpoonup> nat) \<Rightarrow> (filter_key \<times> filter_value) list \<Rightarrow> (nat \<rightharpoonup> pyobj \<times> setter)
     \<Rightarrow> error + (nat \<rightharpoonup> pyobj \<times> setter)" where
  "preload path_to_id [] loaded = Inr loaded"
| "preload path_to_id ((Str node_path, v) # kvs) loaded =
     (case path_to_id node_path of
        None \<Rightarrow> Inl KeyError
      | Some nid \<Rightarrow>
          preload path_to_id kvs
            (loaded(nid \<mapsto> (case v of Pair node s \<Rightarrow> (node, s) | Value node \<Rightarrow> (node, Setattr)))))"
| "preload path_to_id ((NotStr, v) # kvs) loaded = Inl KeyError"

definition initial_loaded_nodes ::
  "(string \<rightharpoonup> nat) option \<Rightarrow> filters option \<Rightarrow> error + (nat \<rightharpoonup> pyobj \<times> setter)" where
  "initial_loaded_nodes path_to_id node_filters =
     (case (node_filters, path_to_id) of
        (Some (FilterDict kvs), Some m) \<Rightarrow> preload m kvs Map.empty
      | _ \<Rightarrow> Inr Map.empty)"

subsection \<open>The filter closure\<close>

text \<open>
  The state of \<open>Loader._retrieve_all_filtered_nodes\<close>: \<open>self._node_path_to_id\<close>,
  \<open>self._loaded_nodes\<close>, the set \<open>all_filtered_nodes\<close> (in the order of insertion; the
  order in which Python iterates the set is not fixed, and nothing below depends on it)
  and the queue \<open>nodes_to_visit\<close>.
\<close>

record retrieval =
  path_to_id :: "string \<rightharpoonup> nat"
  loaded :: "nat \<rightharpoonup> pyobj \<times> setter"
  all_filtered_nodes :: "nat list"
  nodes_to_visit :: "string list"

text \<open>\<open>self._loaded_nodes.get(node_id, (None, None))[0]\<close>.\<close>

definition loaded_object :: "(nat \<rightharpoonup> pyobj \<times> setter) \<Rightarrow> nat \<Rightarrow> pyobj" where
  "loaded_object m nid = (case m nid of None \<Rightarrow> PyNone | Some (ob, s) \<Rightarrow> ob)"

text \<open>\<open>node._lookup_dependency(name)\<close>: the tracked dependency, or \<open>None\<close>.\<close>

definition lookup_dependency :: "heap \<Rightarrow> pyobj \<Rightarrow> string \<Rightarrow> pyobj" where
  "lookup_dependency h node name =
     (case node of
        Ref a \<Rightarrow>
          (case h a of
             Some ob \<Rightarrow> (case dependencies ob name of Some child \<Rightarrow> child | None \<Rightarrow> PyNone)
           | None \<Rightarrow> PyNone)
      | _ \<Rightarrow> PyNone)"

text \<open>
  The loop \<open>for reference in self._proto.nodes[node_id].children\<close>: a child the supplied
  node already tracks, when it is a trackable data structure, is stored with the no-op
  setter; the child's path is registered and queued.
\<close>

fun visit_children ::
  "heap \<Rightarrow> string \<Rightarrow> pyobj \<Rightarrow> object_reference list \<Rightarrow> retrieval \<Rightarrow> retrieval" where
  "visit_children h node_path node [] r = r"
| "visit_children h node_path node (reference # references) r =
     (let child_object = loaded_object (loaded r) (node_id reference);
          tracked = (if child_object = PyNone \<and> node \<noteq> PyNone
                     then lookup_dependency h node (local_name reference)
                     else child_object);
          loaded' = (if child_object = PyNone \<and> node \<noteq> PyNone \<and> py_is is_data_structure h tracked
                     then (loaded r)(node_id reference \<mapsto> (tracked, NoopSetter))
                     else loaded r);
          child_path = node_path @ ''.'' @ local_name reference
      in visit_children h node_path node references
           (r\<lparr>loaded := loaded',
              path_to_id := (path_to_id r)(child_path \<mapsto> node_id reference),
              nodes_to_visit := nodes_to_visit r @ [child_path]\<rparr>))"

text \<open>
  The \<open>while nodes_to_visit\<close> loop. It ends because every pass either drops a path of
  the queue or adds a node id below \<open>len(self._proto.nodes)\<close> to the visited set.
\<close>

function retrieve_loop :: "heap \<Rightarrow> saved_object list \<Rightarrow> retrieval \<Rightarrow> error + retrieval" where
  "retrieve_loop h nodes r =
     (case nodes_to_visit r of
        [] \<Rightarrow> Inr r
      | node_path # rest \<Rightarrow>
          (case path_to_id r node_path of
             None \<Rightarrow> Inl KeyError
           | Some nid \<Rightarrow>
               if nid \<in> set (all_filtered_nodes r)
               then retrieve_loop h nodes (r\<lparr>nodes_to_visit := rest\<rparr>)
               else if loaded_object (loaded r) nid \<noteq> PyNone
                       \<and> \<not> py_is is_trackable h (loaded_object (loaded r) nid)
               then Inl (TypeErrorNotTrackable node_path)
               else if \<not> nid < length nodes then Inl IndexError
               else retrieve_loop h nodes
                      (visit_children h node_path (loaded_object (loaded r) nid)
                         (children (nodes ! nid))
                         (r\<lparr>nodes_to_visit := rest,
                            all_filtered_nodes := all_filtered_nodes r @ [nid]\<rparr>))))"
  by pat_completeness auto

lemma visit_children_all_filtered_nodes:
  "all_filtered_nodes (visit_children h node_path node references r) = all_filtered_nodes r"
  by (induction references arbitrary: r) (simp_all add: Let_def)

termination retrieve_loop
proof (relation "measures [\<lambda>(h, nodes, r). card ({..<length nodes} - set (all_filtered_nodes r)),
                           \<lambda>(h, nodes, r). length (nodes_to_visit r)]")
  show "wf (measures [\<lambda>(h, nodes, r). card ({..<length nodes} - set (all_filtered_nodes r)),
                      \<lambda>(h, nodes, r). length (nodes_to_visit r)])"
    by simp
next
  fix h :: heap and nodes :: "saved_object list" and r :: retrieval and node_path rest nid
  assume "nodes_to_visit r = node_path # rest"
  then show "((h, nodes, r\<lparr>nodes_to_visit := rest\<rparr>), h, nodes, r)
       \<in> measures [\<lambda>(h, nodes, r). card ({..<length nodes} - set (all_filtered_nodes r)),
                    \<lambda>(h, nodes, r). length (nodes_to_visit r)]"
    by simp
next
  fix h :: heap and nodes :: "saved_object list" and r :: retrieval and node_path rest nid
  assume new: "nid \<notin> set (all_filtered_nodes r)" and range: "\<not> \<not> nid < length nodes"
  have "{..<length nodes} - set (all_filtered_nodes r @ [nid])
          \<subset> {..<length nodes} - set (all_filtered_nodes r)"
    using new range by auto
  then have "card ({..<length nodes} - set (all_filtered_nodes r @ [nid]))
          < card ({..<length nodes} - set (all_filtered_nodes r))"
    by (intro psubset_card_mono) auto
  then show "((h, nodes,
         visit_children h node_path (loaded_object (loaded r) nid) (children (nodes ! nid))
          (r\<lparr>nodes_to_visit := rest, all_filtered_nodes := all_filtered_nodes r @ [nid]\<rparr>)),
        h, nodes, r)
       \<in> measures [\<lambda>(h, nodes, r). card ({..<length nodes} - set (all_filtered_nodes r)),
                    \<lambda>(h, nodes, r). length (nodes_to_visit r)]"
    by (simp add: visit_children_all_filtered_nodes)
qed

subsection \<open>The world the loader changes, and its collaborators\<close>

text \<open>
  Operations \<open>_unused_handle\<close> and \<open>_restore_checkpoint\<close> add to the default graph, the
  two graph collections the loader appends to, and a log of the constructions in the
  order in which they happen (the log is not in the source: it records the order of the
  source's calls).
\<close>

datatype graph_op =
    PlaceholderWithDefault bool
  | AssertOp pyobj string
  | PlaceholderOp "nat list"
  | GroupOp "pyobj list"

datatype collection_item = Item pyobj | ItemList "pyobj list"

datatype event =
    Recreated nat pyobj
  | SlotAdded nat pyobj pyobj string nat pyobj
  | CheckpointRestored
  | Initialized pyobj pyobj

record world =
  heap :: heap
  next_addr :: nat
  next_class :: nat
  callable_classes :: "nat set"
  graph_ops :: "graph_op list"
  table_initializers :: "collection_item list"
  asset_filepaths :: "pyobj list"
  captured_inputs :: "string \<rightharpoonup> pyobj list"
  bound_variables :: "string \<rightharpoonup> pyobj list"
  trace :: "event list"

definition log_event :: "event \<Rightarrow> world \<Rightarrow> world" where
  "log_event ev w = w\<lparr>trace := trace w @ [ev]\<rparr>"

text \<open>
  The collaborators: the registered deserializers (\<open>revived_types.deserialize\<close>, by node
  id), the library constructors of the other kinds, \<open>add_slot\<close> of an optimizer, setters
  supplied from outside, the \<open>_initialize\<close> method of a resource, a call of a restored
  function, the properties \<open>handle\<close>, \<open>asset_path\<close> and \<open>resource_handle\<close>, the class
  \<open>_RestoredResource\<close>, \<open>context.executing_eagerly()\<close>, and what the checkpoint saver
  finds: the ids of the persisted entries, the ids of the constructed trackable objects
  it walks from the root, and the restore operations of a matched object.
\<close>

record env =
  deserialize :: "nat \<Rightarrow> (py_object \<times> setter) option"
  construct :: "kind \<Rightarrow> nat \<Rightarrow> error + py_object"
  add_slot :: "heap \<Rightarrow> nat \<Rightarrow> pyobj \<Rightarrow> string \<Rightarrow> error + py_object"
  ext_setattr :: "nat \<Rightarrow> pyobj \<Rightarrow> string \<Rightarrow> pyobj \<Rightarrow> world \<Rightarrow> error + world"
  initialize_method :: "heap \<Rightarrow> nat \<Rightarrow> error + pyobj"
  call_function :: "heap \<Rightarrow> pyobj \<Rightarrow> error + pyobj"
  prop_handle :: "heap \<Rightarrow> nat \<Rightarrow> error + pyobj"
  prop_asset_path :: "heap \<Rightarrow> nat \<Rightarrow> pyobj"
  prop_resource_handle :: "heap \<Rightarrow> nat \<Rightarrow> error + pyobj"
  restored_resource_class :: nat
  executing_eagerly :: bool
  persisted_entries :: "nat list"
  saver_objects :: "heap \<Rightarrow> pyobj \<Rightarrow> nat list"
  restore_ops :: "nat \<Rightarrow> pyobj list"

definition bind_result :: "error + 'a \<Rightarrow> ('a \<Rightarrow> error + 'b) \<Rightarrow> error + 'b" where
  "bind_result m f = (case m of Inl e \<Rightarrow> Inl e | Inr x \<Rightarrow> f x)"

text \<open>A new object: a fresh address.\<close>

definition alloc :: "py_object \<Rightarrow> world \<Rightarrow> pyobj \<times> world" where
  "alloc ob w =
     (Ref (next_addr w),
      w\<lparr>heap := (heap w)(next_addr w \<mapsto> ob), next_addr := Suc (next_addr w)\<rparr>)"

text \<open>
  An instance of a class that derives from \<open>AutoTrackable\<close> and nothing else
  (\<open>_UserObject\<close>), and an instance of \<open>_RestoredResource\<close>, a \<open>TrackableResource\<close>.
\<close>

definition user_object :: "nat \<Rightarrow> py_object" where
  "user_object c =
     \<lparr>py_class = c, is_trackable = True, is_data_structure = False,
      is_distributed_variable = False, is_resource_variable = False, is_asset = False,
      is_tf_type = False, is_capturable_resource = False, is_lookup_interface = False,
      dependencies = Map.empty, attributes = Map.empty\<rparr>"

definition restored_resource :: "nat \<Rightarrow> py_object" where
  "restored_resource c = (user_object c)\<lparr>is_capturable_resource := True\<rparr>"

subsection \<open>The node factory\<close>

text \<open>
  \<open>Loader._recreate_base_user_object\<close>: every call declares a class of its own and
  returns an instance of it with \<open>setattr\<close>.
\<close>

definition recreate_base_user_object :: "world \<Rightarrow> (pyobj \<times> setter) \<times> world" where
  "recreate_base_user_object w =
     (case alloc (user_object (next_class w)) (w\<lparr>next_class := Suc (next_class w)\<rparr>) of
        (ob, w') \<Rightarrow> ((ob, Setattr), w'))"

text \<open>\<open>Loader._recreate_user_object\<close>.\<close>

definition recreate_user_object :: "env \<Rightarrow> nat \<Rightarrow> world \<Rightarrow> error + (pyobj \<times> setter) \<times> world" where
  "recreate_user_object E nid w =
     (case deserialize E nid of
        None \<Rightarrow> Inr (recreate_base_user_object w)
      | Some (ob, s) \<Rightarrow> (case alloc ob w of (r, w') \<Rightarrow> Inr ((r, s), w')))"

text \<open>A node built by a library constructor, with the setter the source pairs it with.\<close>

definition library_object ::
  "env \<Rightarrow> kind \<Rightarrow> nat \<Rightarrow> setter \<Rightarrow> world \<Rightarrow> error + (pyobj \<times> setter) \<times> world" where
  "library_object E k nid s w =
     (case construct E k nid of
        Inl e \<Rightarrow> Inl e
      | Inr ob \<Rightarrow> (case alloc ob w of (r, w') \<Rightarrow> Inr ((r, s), w')))"

text \<open>
  \<open>Loader._recreate_asset\<close>: outside eager execution the asset path joins the
  collection \<open>ASSET_FILEPATHS\<close>.
\<close>

definition recreate_asset :: "env \<Rightarrow> nat \<Rightarrow> world \<Rightarrow> error + (pyobj \<times> setter) \<times> world" where
  "recreate_asset E nid w =
     (case construct E Asset nid of
        Inl e \<Rightarrow> Inl e
      | Inr ob \<Rightarrow>
          (case alloc ob w of
             (r, w') \<Rightarrow>
               Inr ((r, Setattr),
                    if executing_eagerly E then w'
                    else w'\<lparr>asset_filepaths :=
                             asset_filepaths w' @ [prop_asset_path E (heap w') (next_addr w)]\<rparr>)))"

text \<open>\<open>Loader._recreate_resource\<close>.\<close>

definition recreate_resource :: "env \<Rightarrow> world \<Rightarrow> error + (pyobj \<times> setter) \<times> world" where
  "recreate_resource E w =
     (case alloc (restored_resource (restored_resource_class E)) w of
        (r, w') \<Rightarrow> Inr ((r, SetattrAndTrack), w'))"

text \<open>
  \<open>Loader._recreate\<close>: the dispatch on \<open>proto.WhichOneof("kind")\<close>; a kind that is not a
  key of \<open>factory\<close> is \<open>ValueError("Unknown SavedObject type")\<close>.
\<close>

definition recreate ::
  "env \<Rightarrow> saved_object \<Rightarrow> nat \<Rightarrow> world \<Rightarrow> error + (pyobj \<times> setter) \<times> world" where
  "recreate E proto nid w =
     (case kind proto of
        UserObject \<Rightarrow> recreate_user_object E nid w
      | Asset \<Rightarrow> recreate_asset E nid w
      | Function \<Rightarrow> library_object E Function nid Setattr w
      | BareConcreteFunction \<Rightarrow> library_object E BareConcreteFunction nid Setattr w
      | Variable \<Rightarrow> library_object E Variable nid Setattr w
      | Constant \<Rightarrow> library_object E Constant nid Setattr w
      | Resource \<Rightarrow> recreate_resource E w
      | CapturedTensor \<Rightarrow> library_object E CapturedTensor nid Setattr w
      | KindNotSet \<Rightarrow> Inl UnknownNodeKindError)"

subsection \<open>Loading the nodes\<close>

text \<open>
  The fields of \<open>Loader\<close>: \<open>_proto.nodes\<close>, \<open>_proto.concrete_functions\<close> (name and
  \<open>bound_inputs\<close>), \<open>_node_filters\<close>, \<open>_node_path_to_id\<close>, \<open>_loaded_nodes\<close>,
  \<open>_filtered_nodes\<close>, \<open>_nodes\<close> and \<open>_node_setters\<close>.
\<close>

record loader =
  proto_nodes :: "saved_object list"
  concrete_functions :: "(string \<times> nat list) list"
  node_filters :: "filters option"
  node_path_to_id :: "(string \<rightharpoonup> nat) option"
  loaded_nodes :: "nat \<rightharpoonup> pyobj \<times> setter"
  filtered_nodes :: "nat list option"
  loader_nodes :: "pyobj list"
  node_setters :: "nat \<rightharpoonup> setter"

text \<open>\<open>Loader._iter_all_nodes\<close>.\<close>

definition iter_all_nodes ::
  "saved_object list \<Rightarrow> nat list option \<Rightarrow> error + (nat \<times> saved_object) list" where
  "iter_all_nodes protos filtered =
     (case filtered of
        None \<Rightarrow> Inr (enumerate 0 protos)
      | Some ids \<Rightarrow>
          if list_all (\<lambda>nid. nid < length protos) ids
          then Inr (map (\<lambda>nid. (nid, protos ! nid)) ids)
          else Inl IndexError)"

text \<open>The set \<open>slot_variable_node_ids\<close> of \<open>_load_nodes\<close>.\<close>

definition slot_variable_node_ids :: "(nat \<times> saved_object) list \<Rightarrow> nat set" where
  "slot_variable_node_ids its =
     set (concat (map (\<lambda>it. map slot_variable_node_id (slot_variables (snd it))) its))"

text \<open>The dictionaries \<open>nodes\<close> and \<open>node_setters\<close> of \<open>_load_nodes\<close>, with the world.\<close>

record construction =
  c_nodes :: "nat \<rightharpoonup> pyobj"
  c_setters :: "nat \<rightharpoonup> setter"
  c_world :: world

text \<open>
  The first loop, "re-create everything except slot variables": a slot variable, and a
  node that is already there (\<open>nodes.get(node_id) is not None\<close>), is passed over.
\<close>

fun recreate_all ::
  "env \<Rightarrow> nat set \<Rightarrow> (nat \<times> saved_object) list \<Rightarrow> construction \<Rightarrow> error + construction" where
  "recreate_all E slots [] c = Inr c"
| "recreate_all E slots ((nid, proto) # its) c =
     (if nid \<in> slots \<or> (c_nodes c nid \<noteq> None \<and> c_nodes c nid \<noteq> Some PyNone)
      then recreate_all E slots its c
      else
        (case recreate E proto nid (c_world c) of
           Inl e \<Rightarrow> Inl e
         | Inr ((node, s), w) \<Rightarrow>
             recreate_all E slots its
               (c\<lparr>c_nodes := (c_nodes c)(nid \<mapsto> node),
                  c_setters := (c_setters c)(nid \<mapsto> s),
                  c_world := log_event (Recreated nid node) w\<rparr>)))"

text \<open>\<open>optimizer_object.add_slot(var=..., slot_name=...)\<close>: the optimizer's own method.\<close>

definition call_add_slot ::
  "env \<Rightarrow> pyobj \<Rightarrow> pyobj \<Rightarrow> string \<Rightarrow> world \<Rightarrow> error + pyobj \<times> world" where
  "call_add_slot E optimizer_object var name w =
     (case optimizer_object of
        Ref a \<Rightarrow>
          (case add_slot E (heap w) a var name of
             Inl e \<Rightarrow> Inl e
           | Inr ob \<Rightarrow> Inr (alloc ob w))
      | _ \<Rightarrow> Inl AttributeError)"

text \<open>
  The second loop: for every node, \<open>optimizer_object = nodes[node_id]\<close>, and for each of
  its slot variables \<open>nodes[original_variable_node_id]\<close>, both lookups in the
  dictionary, then \<open>add_slot\<close>; the slot variable is stored with \<open>setattr\<close>.
\<close>

fun add_slots ::
  "env \<Rightarrow> nat \<Rightarrow> pyobj \<Rightarrow> slot_variable_reference list \<Rightarrow> construction \<Rightarrow> error + construction" where
  "add_slots E nid optimizer_object [] c = Inr c"
| "add_slots E nid optimizer_object (sv # svs) c =
     (case c_nodes c (original_variable_node_id sv) of
        None \<Rightarrow> Inl KeyError
      | Some optimized_variable \<Rightarrow>
          (case call_add_slot E optimizer_object optimized_variable (slot_name sv) (c_world c) of
             Inl e \<Rightarrow> Inl e
           | Inr (slot_variable, w) \<Rightarrow>
               add_slots E nid optimizer_object svs
                 (c\<lparr>c_nodes := (c_nodes c)(slot_variable_node_id sv \<mapsto> slot_variable),
                    c_setters := (c_setters c)(slot_variable_node_id sv \<mapsto> Setattr),
                    c_world :=
                      log_event
                        (SlotAdded nid optimizer_object optimized_variable (slot_name sv)
                           (slot_variable_node_id sv) slot_variable) w\<rparr>)))"

fun recreate_slot_variables ::
  "env \<Rightarrow> (nat \<times> saved_object) list \<Rightarrow> construction \<Rightarrow> error + construction" where
  "recreate_slot_variables E [] c = Inr c"
| "recreate_slot_variables E ((nid, proto) # its) c =
     (case c_nodes c nid of
        None \<Rightarrow> Inl KeyError
      | Some optimizer_object \<Rightarrow>
          (case add_slots E nid optimizer_object (slot_variables proto) c of
             Inl e \<Rightarrow> Inl e
           | Inr c' \<Rightarrow> recreate_slot_variables E its c'))"

text \<open>"If root object is not loaded, add a dummy root object".\<close>

definition add_dummy_root :: "construction \<Rightarrow> construction" where
  "add_dummy_root c =
     (if c_nodes c 0 = None
      then (case recreate_base_user_object (c_world c) of
              ((root, s), w) \<Rightarrow> c\<lparr>c_nodes := (c_nodes c)(0 \<mapsto> root), c_world := w\<rparr>)
      else c)"

text \<open>\<open>[nodes.get(node_id) for node_id in range(len(self._proto.nodes))]\<close>.\<close>

definition nodes_list :: "(nat \<rightharpoonup> pyobj) \<Rightarrow> nat \<Rightarrow> pyobj list" where
  "nodes_list m n = map (\<lambda>nid. case m nid of None \<Rightarrow> PyNone | Some ob \<Rightarrow> ob) [0..<n]"

text \<open>\<open>Loader._load_nodes\<close>.\<close>

definition load_nodes :: "env \<Rightarrow> loader \<Rightarrow> world \<Rightarrow> error + loader \<times> world" where
  "load_nodes E L w =
     (case iter_all_nodes (proto_nodes L) (filtered_nodes L) of
        Inl e \<Rightarrow> Inl e
      | Inr its \<Rightarrow>
          (case recreate_all E (slot_variable_node_ids its) its
                  \<lparr>c_nodes = map_option fst \<circ> loaded_nodes L,
                   c_setters = map_option snd \<circ> loaded_nodes L,
                   c_world = w\<rparr> of
             Inl e \<Rightarrow> Inl e
           | Inr c1 \<Rightarrow>
               (case recreate_slot_variables E its c1 of
                  Inl e \<Rightarrow> Inl e
                | Inr c2 \<Rightarrow>
                    Inr (L\<lparr>loader_nodes :=
                             nodes_list (c_nodes (add_dummy_root c2)) (length (proto_nodes L)),
                           node_setters := c_setters (add_dummy_root c2)\<rparr>,
                         c_world (add_dummy_root c2)))))"

subsection \<open>Wiring the edges\<close>

text \<open>
  \<open>setattr(obj, name, value)\<close>, \<open>hasattr\<close> and \<open>getattr\<close> on the instance attributes of
  an object of the heap; \<open>None\<close> and tensors take no attribute.
\<close>

definition set_attribute :: "pyobj \<Rightarrow> string \<Rightarrow> pyobj \<Rightarrow> world \<Rightarrow> error + world" where
  "set_attribute obj name v w =
     (case obj of
        Ref a \<Rightarrow>
          (case heap w a of
             Some ob \<Rightarrow>
               Inr (w\<lparr>heap := (heap w)(a \<mapsto> ob\<lparr>attributes := (attributes ob)(name \<mapsto> v)\<rparr>)\<rparr>)
           | None \<Rightarrow> Inl AttributeError)
      | _ \<Rightarrow> Inl AttributeError)"

definition get_attribute :: "world \<Rightarrow> pyobj \<Rightarrow> string \<Rightarrow> pyobj option" where
  "get_attribute w obj name =
     (case obj of
        Ref a \<Rightarrow> (case heap w a of Some ob \<Rightarrow> attributes ob name | None \<Rightarrow> None)
      | _ \<Rightarrow> None)"

text \<open>\<open>obj._track_trackable(value, name)\<close>.\<close>

definition track_trackable :: "pyobj \<Rightarrow> string \<Rightarrow> pyobj \<Rightarrow> world \<Rightarrow> error + world" where
  "track_trackable obj name v w =
     (case obj of
        Ref a \<Rightarrow>
          (case heap w a of
             Some ob \<Rightarrow>
               Inr (w\<lparr>heap := (heap w)(a \<mapsto> ob\<lparr>dependencies := (dependencies ob)(name \<mapsto> v)\<rparr>)\<rparr>)
           | None \<Rightarrow> Inl AttributeError)
      | _ \<Rightarrow> Inl AttributeError)"

text \<open>A setter applied: \<open>setter(obj, name, value)\<close>; \<open>_setattr_and_track\<close> is in the source.\<close>

definition apply_setter ::
  "env \<Rightarrow> setter \<Rightarrow> pyobj \<Rightarrow> string \<Rightarrow> pyobj \<Rightarrow> world \<Rightarrow> error + world" where
  "apply_setter E s obj name v w =
     (case s of
        Setattr \<Rightarrow> set_attribute obj name v w
      | SetattrAndTrack \<Rightarrow>
          (case set_attribute obj name v w of
             Inl e \<Rightarrow> Inl e
           | Inr w' \<Rightarrow>
               if py_is is_trackable (heap w') v then track_trackable obj name v w' else Inr w')
      | NoopSetter \<Rightarrow> Inr w
      | ExtSetter n \<Rightarrow> ext_setattr E n obj name v w)"

text \<open>
  \<open>callable(obj)\<close> looks for \<open>__call__\<close> on the type of the object, and
  \<open>setattr(type(obj), "__call__", _call_attribute)\<close> puts it there; the type of \<open>None\<close>
  or of a tensor is built in and takes no attribute.
\<close>

definition py_callable :: "world \<Rightarrow> pyobj \<Rightarrow> bool" where
  "py_callable w obj =
     (case obj of
        Ref a \<Rightarrow> (case heap w a of Some ob \<Rightarrow> py_class ob \<in> callable_classes w | None \<Rightarrow> False)
      | _ \<Rightarrow> False)"

definition set_type_call :: "pyobj \<Rightarrow> world \<Rightarrow> error + world" where
  "set_type_call obj w =
     (case obj of
        Ref a \<Rightarrow>
          (case heap w a of
             Some ob \<Rightarrow> Inr (w\<lparr>callable_classes := insert (py_class ob) (callable_classes w)\<rparr>)
           | None \<Rightarrow> Inl BuiltinTypeError)
      | _ \<Rightarrow> Inl BuiltinTypeError)"

text \<open>One pass of the loop of \<open>Loader._add_object_graph_edges\<close>, and the loop.\<close>

definition add_edge ::
  "env \<Rightarrow> pyobj list \<Rightarrow> pyobj \<Rightarrow> setter \<Rightarrow> object_reference \<Rightarrow> world \<Rightarrow> error + world" where
  "add_edge E nodes obj s reference w =
     (if node_id reference < length nodes then
        (case apply_setter E s obj (local_name reference) (nodes ! node_id reference) w of
           Inl e \<Rightarrow> Inl e
         | Inr w' \<Rightarrow>
             if local_name reference = ''__call__'' \<and> \<not> py_callable w' obj
             then set_type_call obj w'
             else Inr w')
      else Inl IndexError)"

fun add_edges ::
  "env \<Rightarrow> pyobj list \<Rightarrow> pyobj \<Rightarrow> setter \<Rightarrow> object_reference list \<Rightarrow> world \<Rightarrow> error + world" where
  "add_edges E nodes obj s [] w = Inr w"
| "add_edges E nodes obj s (reference # references) w =
     (case add_edge E nodes obj s reference w of
        Inl e \<Rightarrow> Inl e
      | Inr w' \<Rightarrow> add_edges E nodes obj s references w')"

definition add_object_graph_edges ::
  "env \<Rightarrow> loader \<Rightarrow> saved_object \<Rightarrow> nat \<Rightarrow> world \<Rightarrow> error + world" where
  "add_object_graph_edges E L proto nid w =
     (if nid < length (loader_nodes L) then
        (case node_setters L nid of
           None \<Rightarrow> Inl KeyError
         | Some s \<Rightarrow> add_edges E (loader_nodes L) (loader_nodes L ! nid) s (children proto) w)
      else Inl IndexError)"

fun add_all_edges ::
  "env \<Rightarrow> loader \<Rightarrow> (nat \<times> saved_object) list \<Rightarrow> world \<Rightarrow> error + world" where
  "add_all_edges E L [] w = Inr w"
| "add_all_edges E L ((nid, proto) # its) w =
     (case add_object_graph_edges E L proto nid w of
        Inl e \<Rightarrow> Inl e
      | Inr w' \<Rightarrow> add_all_edges E L its w')"

text \<open>
  The second half of \<open>Loader._load_edges\<close>, when the root is not among the filtered
  nodes: the loop \<open>for name in path[1:-1]\<close> creates the missing objects on the way, and
  the loaded node is attached under the last name unless the attribute is there.
\<close>

fun walk_or_create :: "pyobj \<Rightarrow> string list \<Rightarrow> world \<Rightarrow> error + pyobj \<times> world" where
  "walk_or_create current_node [] w = Inr (current_node, w)"
| "walk_or_create current_node (name # names) w =
     (case get_attribute w current_node name of
        Some next_node \<Rightarrow> walk_or_create next_node names w
      | None \<Rightarrow>
          (case recreate_base_user_object w of
             ((created, s), w') \<Rightarrow>
               (case set_attribute current_node name created w' of
                  Inl e \<Rightarrow> Inl e
                | Inr w'' \<Rightarrow> walk_or_create created names w'')))"

definition attach_from_root ::
  "loader \<Rightarrow> pyobj \<Rightarrow> string \<Rightarrow> world \<Rightarrow> error + world" where
  "attach_from_root L root node_path w =
     (case node_path_to_id L of
        None \<Rightarrow> Inl KeyError
      | Some m \<Rightarrow>
          (case m node_path of
             None \<Rightarrow> Inl KeyError
           | Some nid \<Rightarrow>
               if nid < length (loader_nodes L) then
                 (case walk_or_create root (butlast (tl (split_dot node_path))) w of
                    Inl e \<Rightarrow> Inl e
                  | Inr (current_node, w') \<Rightarrow>
                      if get_attribute w' current_node (last (split_dot node_path)) \<noteq> None
                      then Inr w'
                      else set_attribute current_node (last (split_dot node_path))
                             (loader_nodes L ! nid) w')
               else Inl IndexError))"

fun attach_all_from_root ::
  "loader \<Rightarrow> pyobj \<Rightarrow> string list \<Rightarrow> world \<Rightarrow> error + world" where
  "attach_all_from_root L root [] w = Inr w"
| "attach_all_from_root L root (node_path # node_paths) w =
     (case attach_from_root L root node_path w of
        Inl e \<Rightarrow> Inl e
      | Inr w' \<Rightarrow> attach_all_from_root L root node_paths w')"

text \<open>\<open>Loader.get\<close> with an integer and with a string.\<close>

definition get_node :: "loader \<Rightarrow> nat \<Rightarrow> error + pyobj" where
  "get_node L nid = (if nid < length (loader_nodes L) then Inr (loader_nodes L ! nid) else Inl IndexError)"

definition get_path :: "loader \<Rightarrow> string \<Rightarrow> error + pyobj" where
  "get_path L node_path =
     (case node_path_to_id L of
        None \<Rightarrow> Inl KeyError
      | Some m \<Rightarrow> (case m node_path of None \<Rightarrow> Inl KeyError | Some nid \<Rightarrow> get_node L nid))"

definition node_filter_paths :: "loader \<Rightarrow> string list" where
  "node_filter_paths L =
     (case node_filters L of None \<Rightarrow> [] | Some fs \<Rightarrow> filter_paths (filter_keys fs))"

text \<open>\<open>Loader._load_edges\<close>.\<close>

definition load_edges :: "env \<Rightarrow> loader \<Rightarrow> world \<Rightarrow> error + world" where
  "load_edges E L w =
     (case iter_all_nodes (proto_nodes L) (filtered_nodes L) of
        Inl e \<Rightarrow> Inl e
      | Inr its \<Rightarrow>
          (case add_all_edges E L its w of
             Inl e \<Rightarrow> Inl e
           | Inr w' \<Rightarrow>
               (case filtered_nodes L of
                  None \<Rightarrow> Inr w'
                | Some ids \<Rightarrow>
                    if 0 \<in> set ids then Inr w'
                    else (case get_node L 0 of
                            Inl e \<Rightarrow> Inl e
                          | Inr root \<Rightarrow> attach_all_from_root L root (node_filter_paths L) w'))))"

subsection \<open>Captures of the restored functions\<close>

text \<open>A property read on a value: only an object of the heap has the property.\<close>

definition read_property ::
  "(heap \<Rightarrow> nat \<Rightarrow> error + pyobj) \<Rightarrow> heap \<Rightarrow> pyobj \<Rightarrow> error + pyobj" where
  "read_property prop h obj = (case obj of Ref a \<Rightarrow> prop h a | _ \<Rightarrow> Inl AttributeError)"

text \<open>
  \<open>Loader._get_tensor_from_node\<close>. The guard reads \<open>self._nodes[node_id]\<close> only when
  there are filters; the body reads it in any case.
\<close>

definition get_tensor_from_node ::
  "env \<Rightarrow> loader \<Rightarrow> heap \<Rightarrow> nat \<Rightarrow> string \<Rightarrow> error + pyobj" where
  "get_tensor_from_node E L h nid fn_name =
     (if \<not> nid < length (loader_nodes L) then Inl IndexError
      else if node_filters L \<noteq> None \<and> loader_nodes L ! nid = PyNone
      then Inl (MissingDependencyError fn_name)
      else
        (let obj = loader_nodes L ! nid in
         if py_is is_distributed_variable h obj then Inr obj
         else if py_is is_resource_variable h obj then read_property (prop_handle E) h obj
         else if py_is is_asset h obj
         then read_property (\<lambda>h a. Inr (prop_asset_path E h a)) h obj
         else if py_is_tf_type h obj then Inr obj
         else if py_is is_capturable_resource h obj
         then read_property (prop_resource_handle E) h obj
         else Inl CaptureResolutionError))"

text \<open>The list comprehension \<open>bound_inputs\<close> of \<open>_setup_functions_captures\<close>.\<close>

fun bound_inputs_of ::
  "env \<Rightarrow> loader \<Rightarrow> heap \<Rightarrow> string \<Rightarrow> nat list \<Rightarrow> error + pyobj list" where
  "bound_inputs_of E L h fn_name [] = Inr []"
| "bound_inputs_of E L h fn_name (nid # nids) =
     (case get_tensor_from_node E L h nid fn_name of
        Inl e \<Rightarrow> Inl e
      | Inr t \<Rightarrow>
          (case bound_inputs_of E L h fn_name nids of
             Inl e \<Rightarrow> Inl e
           | Inr ts \<Rightarrow> Inr (t # ts)))"

text \<open>
  The list comprehension \<open>bound_variables\<close>: the nodes of kind \<open>variable\<close> among the bound
  inputs. (The ids have passed \<open>bound_inputs_of\<close>, so they are in range.)
\<close>

definition bound_variables_of :: "loader \<Rightarrow> nat list \<Rightarrow> pyobj list" where
  "bound_variables_of L nids =
     map (\<lambda>nid. loader_nodes L ! nid)
       (filter (\<lambda>nid. nid < length (proto_nodes L) \<and> kind (proto_nodes L ! nid) = Variable) nids)"

text \<open>
  \<open>Loader._setup_functions_captures\<close>, over the functions sorted by name: the captured
  inputs and the variables are stored on the function. What follows in the source
  (\<open>replace_capture\<close>, \<open>copy_handle_data\<close>, \<open>capture\<close>) rewrites the function's own graph
  and is the collaborator's.
\<close>

fun setup_captures ::
  "env \<Rightarrow> loader \<Rightarrow> (string \<times> nat list) list \<Rightarrow> world \<Rightarrow> error + world" where
  "setup_captures E L [] w = Inr w"
| "setup_captures E L ((name, nids) # fs) w =
     (case bound_inputs_of E L (heap w) name nids of
        Inl e \<Rightarrow> Inl e
      | Inr bound_inputs \<Rightarrow>
          setup_captures E L fs
            (w\<lparr>captured_inputs := (captured_inputs w)(name \<mapsto> bound_inputs),
               bound_variables := (bound_variables w)(name \<mapsto> bound_variables_of L nids)\<rparr>))"

definition setup_functions_captures :: "env \<Rightarrow> loader \<Rightarrow> world \<Rightarrow> error + world" where
  "setup_functions_captures E L w = setup_captures E L (sort_key fst (concrete_functions L)) w"

text \<open>
  \<open>Loader._create_saveable_object_factories\<close>: the node must take the attribute, and the
  save and restore functions are read with \<open>self.get\<close>; the dictionary of factories
  itself is not looked into.
\<close>

fun check_saveables :: "loader \<Rightarrow> (string \<times> saveable_object) list \<Rightarrow> error + unit" where
  "check_saveables L [] = Inr ()"
| "check_saveables L ((name, so) # sos) =
     (if save_function so < length (loader_nodes L) \<and> restore_function so < length (loader_nodes L)
      then check_saveables L sos
      else Inl IndexError)"

fun create_factories :: "loader \<Rightarrow> (nat \<times> saved_object) list \<Rightarrow> world \<Rightarrow> error + world" where
  "create_factories L [] w = Inr w"
| "create_factories L ((nid, proto) # its) w =
     (case get_node L nid of
        Inl e \<Rightarrow> Inl e
      | Inr node \<Rightarrow>
          (case set_attribute node ''_self_saveable_object_factories'' (Opaque 0) w of
             Inl e \<Rightarrow> Inl e
           | Inr w' \<Rightarrow>
               (case check_saveables L (saveable_objects proto) of
                  Inl e \<Rightarrow> Inl e
                | Inr u \<Rightarrow> create_factories L its w')))"

definition create_saveable_object_factories :: "loader \<Rightarrow> world \<Rightarrow> error + world" where
  "create_saveable_object_factories L w =
     (case iter_all_nodes (proto_nodes L) (filtered_nodes L) of
        Inl e \<Rightarrow> Inl e
      | Inr its \<Rightarrow> create_factories L its w)"

text \<open>
  \<open>Loader._load_all\<close>. \<open>_setup_functions_structures\<close> decodes the signatures onto the
  functions' own graphs and touches nothing the loader reads.
\<close>

definition load_all :: "env \<Rightarrow> loader \<Rightarrow> world \<Rightarrow> error + loader \<times> world" where
  "load_all E L w =
     (case load_nodes E L w of
        Inl e \<Rightarrow> Inl e
      | Inr (L', w1) \<Rightarrow>
          (case load_edges E L' w1 of
             Inl e \<Rightarrow> Inl e
           | Inr w2 \<Rightarrow>
               (case setup_functions_captures E L' w2 of
                  Inl e \<Rightarrow> Inl e
                | Inr w3 \<Rightarrow>
                    (case create_saveable_object_factories L' w3 of
                       Inl e \<Rightarrow> Inl e
                     | Inr w4 \<Rightarrow> Inr (L', w4)))))"

subsection \<open>The loader's constructor\<close>

text \<open>
  \<open>Loader._retrieve_all_filtered_nodes\<close>: its value (the ids to load, \<open>None\<close> for all,
  also when the root has been visited) and the loader, whose \<open>_node_path_to_id\<close> and
  \<open>_loaded_nodes\<close> it has changed.
\<close>

definition retrieve_all_filtered_nodes :: "heap \<Rightarrow> loader \<Rightarrow> error + nat list option \<times> loader" where
  "retrieve_all_filtered_nodes h L =
     (case node_filters L of
        None \<Rightarrow> Inr (None, L)
      | Some fs \<Rightarrow>
          (case node_path_to_id L of
             None \<Rightarrow> Inl KeyError
           | Some m \<Rightarrow>
               (case retrieve_loop h (proto_nodes L)
                       \<lparr>path_to_id = m, loaded = loaded_nodes L, all_filtered_nodes = [],
                        nodes_to_visit = filter_paths (filter_keys fs)\<rparr> of
                  Inl e \<Rightarrow> Inl e
                | Inr r \<Rightarrow>
                    Inr (if 0 \<in> set (all_filtered_nodes r) then None
                         else Some (all_filtered_nodes r),
                         L\<lparr>node_path_to_id := Some (path_to_id r), loaded_nodes := loaded r\<rparr>))))"

text \<open>
  Modelled from the spec: \<open>util.TrackableSaver.restore\<close> and the load status it returns
  (\<open>expect_partial\<close>, \<open>assert_nontrivial_match\<close>, \<open>assert_existing_objects_matched\<close>)
  are not in the source file; only their calls are. By the design document a checkpoint
  is keyed by node id; a persisted entry and a constructed trackable object with the same
  id match. \<open>assert_nontrivial_match\<close> fails with \<open>NoMatchError\<close> when no match occurred,
  and \<open>assert_existing_objects_matched\<close> fails with \<open>UnmatchedObjectsError\<close> when a
  constructed trackable object has no persisted entry "or vice versa".
\<close>

record load_status =
  matched :: "nat list"
  unmatched_entries :: "nat list"
  unmatched_objects :: "nat list"

definition saver_restore :: "env \<Rightarrow> heap \<Rightarrow> pyobj \<Rightarrow> load_status" where
  "saver_restore E h root =
     \<lparr>matched = filter (\<lambda>nid. nid \<in> set (saver_objects E h root)) (persisted_entries E),
      unmatched_entries =
        filter (\<lambda>nid. nid \<notin> set (saver_objects E h root)) (persisted_entries E),
      unmatched_objects =
        filter (\<lambda>nid. nid \<notin> set (persisted_entries E)) (saver_objects E h root)\<rparr>"

definition assert_nontrivial_match :: "load_status \<Rightarrow> error + unit" where
  "assert_nontrivial_match st = (if matched st = [] then Inl NoMatchError else Inr ())"

definition assert_existing_objects_matched :: "load_status \<Rightarrow> error + unit" where
  "assert_existing_objects_matched st =
     (if unmatched_objects st \<noteq> [] \<or> unmatched_entries st \<noteq> []
      then Inl UnmatchedObjectsError else Inr ())"

text \<open>
  The loop of \<open>_restore_checkpoint\<close> outside eager execution, over the matched objects:
  a resource variable gets the restore operation (or the group of them) as
  \<open>_initializer_op\<close>, a lookup table has them added to \<open>TABLE_INITIALIZERS\<close>, anything
  else with restore operations is \<open>NotImplementedError\<close>.
\<close>

fun wire_restore_ops :: "env \<Rightarrow> loader \<Rightarrow> nat list \<Rightarrow> world \<Rightarrow> error + world" where
  "wire_restore_ops E L [] w = Inr w"
| "wire_restore_ops E L (object_id # object_ids) w =
     (case get_node L object_id of
        Inl e \<Rightarrow> Inl e
      | Inr obj \<Rightarrow>
          if restore_ops E object_id = [] then wire_restore_ops E L object_ids w
          else if py_is is_resource_variable (heap w) obj then
            (case (if length (restore_ops E object_id) = 1
                   then set_attribute obj ''_initializer_op'' (hd (restore_ops E object_id)) w
                   else set_attribute obj ''_initializer_op'' (OpOutput (length (graph_ops w)))
                          (w\<lparr>graph_ops := graph_ops w @ [GroupOp (restore_ops E object_id)]\<rparr>)) of
               Inl e \<Rightarrow> Inl e
             | Inr w' \<Rightarrow> wire_restore_ops E L object_ids w')
          else if py_is is_lookup_interface (heap w) obj then
            wire_restore_ops E L object_ids
              (w\<lparr>table_initializers :=
                   table_initializers w @ [ItemList (restore_ops E object_id)]\<rparr>)
          else Inl UnsupportedRestoreTarget)"

text \<open>
  \<open>Loader._restore_checkpoint\<close>: the saver is rooted at \<open>self.get(0)\<close>; with
  \<open>allow_partial_checkpoint\<close> the status is asked for a nontrivial match, otherwise for
  the existing objects to be matched.
\<close>

definition restore_checkpoint :: "env \<Rightarrow> loader \<Rightarrow> bool \<Rightarrow> world \<Rightarrow> error + world" where
  "restore_checkpoint E L allow_partial w =
     (case get_node L 0 of
        Inl e \<Rightarrow> Inl e
      | Inr root \<Rightarrow>
          (case (if allow_partial
                 then assert_nontrivial_match (saver_restore E (heap w) root)
                 else assert_existing_objects_matched (saver_restore E (heap w) root)) of
             Inl e \<Rightarrow> Inl e
           | Inr u \<Rightarrow>
               if executing_eagerly E then Inr (log_event CheckpointRestored w)
               else wire_restore_ops E L (matched (saver_restore E (heap w) root))
                      (log_event CheckpointRestored w)))"

text \<open>
  \<open>node._initialize()\<close>: an instance attribute of that name (a restored function an
  edge has set) is called; without one the stub of \<open>_RestoredResource\<close> raises
  \<open>RuntimeError\<close>, and an object of another class runs its own method.
\<close>

definition call_initialize :: "env \<Rightarrow> world \<Rightarrow> pyobj \<Rightarrow> error + pyobj" where
  "call_initialize E w node =
     (case node of
        Ref a \<Rightarrow>
          (case heap w a of
             Some ob \<Rightarrow>
               (case attributes ob ''_initialize'' of
                  Some f \<Rightarrow> call_function E (heap w) f
                | None \<Rightarrow>
                    if py_class ob = restored_resource_class E then Inl RuntimeError
                    else initialize_method E (heap w) a)
           | None \<Rightarrow> Inl AttributeError)
      | _ \<Rightarrow> Inl AttributeError)"

text \<open>The loop \<open>for node in self._nodes\<close> that ends \<open>Loader.__init__\<close>.\<close>

fun initialize_resources :: "env \<Rightarrow> pyobj list \<Rightarrow> world \<Rightarrow> error + world" where
  "initialize_resources E [] w = Inr w"
| "initialize_resources E (node # nodes) w =
     (if py_is is_capturable_resource (heap w) node then
        (case call_initialize E w node of
           Inl e \<Rightarrow> Inl e
         | Inr init_op \<Rightarrow>
             initialize_resources E nodes
               (log_event (Initialized node init_op)
                  (if executing_eagerly E then w
                   else w\<lparr>table_initializers := table_initializers w @ [Item init_op]\<rparr>)))
      else initialize_resources E nodes w)"

text \<open>The options the loader reads (\<open>save_options\<close> in \<open>Loader\<close>, \<open>options\<close> in \<open>load_internal\<close>).\<close>

record load_options =
  allow_partial_checkpoint :: bool
  experimental_skip_checkpoint :: bool

text \<open>The statements of \<open>Loader.__init__\<close> after \<open>self._load_all()\<close>.\<close>

definition restore_and_initialize ::
  "env \<Rightarrow> loader \<Rightarrow> load_options \<Rightarrow> world \<Rightarrow> error + world" where
  "restore_and_initialize E L options w =
     (if experimental_skip_checkpoint options then Inr w
      else
        (case restore_checkpoint E L (allow_partial_checkpoint options) w of
           Inl e \<Rightarrow> Inl e
         | Inr w' \<Rightarrow> initialize_resources E (loader_nodes L) w'))"

text \<open>\<open>Loader.__init__\<close>.\<close>

definition loader_init ::
  "env \<Rightarrow> saved_object list \<Rightarrow> (string \<times> nat list) list \<Rightarrow> load_options \<Rightarrow> filters option
     \<Rightarrow> world \<Rightarrow> error + loader \<times> world" where
  "loader_init E protos functions options filters w =
     bind_result (convert_node_paths_to_ints protos filters) (\<lambda>m.
     bind_result (initial_loaded_nodes m filters) (\<lambda>preloaded.
     bind_result
       (retrieve_all_filtered_nodes (heap w)
          \<lparr>proto_nodes = protos, concrete_functions = functions, node_filters = filters,
           node_path_to_id = m, loaded_nodes = preloaded, filtered_nodes = None,
           loader_nodes = [], node_setters = Map.empty\<rparr>) (\<lambda>(filtered, L).
     bind_result (load_all E (L\<lparr>filtered_nodes := filtered\<rparr>) w) (\<lambda>(L', w').
     bind_result (restore_and_initialize E L' options w') (\<lambda>w''. Inr (L', w''))))))"

subsection \<open>The entry point\<close>

text \<open>
  A parsed \<open>SavedModel\<close>: its meta graphs, each with or without the field
  \<open>object_graph_def\<close>, the object graph, the concrete functions and the tags.
\<close>

record meta_graph =
  has_object_graph_def :: bool
  object_graph_nodes :: "saved_object list"
  object_graph_functions :: "(string \<times> nat list) list"
  meta_tags :: "string list"

text \<open>Python's truth value of \<open>filters\<close>: \<open>None\<close> and the empty list or dictionary are false.\<close>

definition filters_given :: "filters option \<Rightarrow> bool" where
  "filters_given filters = (case filters of None \<Rightarrow> False | Some fs \<Rightarrow> filter_keys fs \<noteq> [])"

text \<open>\<open>{node_id: loader.get(node_id) for node_id in filters}\<close>, as the list of its items.\<close>

fun get_all :: "loader \<Rightarrow> string list \<Rightarrow> error + (string \<times> pyobj) list" where
  "get_all L [] = Inr []"
| "get_all L (node_path # node_paths) =
     (case get_path L node_path of
        Inl e \<Rightarrow> Inl e
      | Inr ob \<Rightarrow>
          (case get_all L node_paths of
             Inl e \<Rightarrow> Inl e
           | Inr items \<Rightarrow> Inr ((node_path, ob) # items)))"

text \<open>\<open>except errors.NotFoundError as err: raise FileNotFoundError(...)\<close>.\<close>

definition translate_not_found :: "error + 'a \<Rightarrow> error + 'a" where
  "translate_not_found m =
     (case m of Inl e \<Rightarrow> Inl (if e = NotFoundError then FileNotFoundError else e) | Inr x \<Rightarrow> Inr x)"

text \<open>
  \<open>load_internal\<close>, from the parsed \<open>SavedModel\<close> on. \<open>load_v1\<close> is
  \<open>load_v1_in_v2.load\<close>; the three attributes written on the root hold values the
  loader only passes on.
\<close>

definition load_internal ::
  "env \<Rightarrow> (world \<Rightarrow> error + pyobj \<times> world) \<Rightarrow> meta_graph list \<Rightarrow> string list option
     \<Rightarrow> load_options \<Rightarrow> filters option \<Rightarrow> world \<Rightarrow> error + (string \<times> pyobj) list \<times> world" where
  "load_internal E load_v1 meta_graphs tags options filters w =
     (if length meta_graphs = 1 \<and> has_object_graph_def (hd meta_graphs) then
        (if tags \<noteq> None \<and> set (the tags) \<noteq> set (meta_tags (hd meta_graphs))
         then Inl TagMismatchError
         else
           bind_result
             (translate_not_found
                (loader_init E (object_graph_nodes (hd meta_graphs))
                   (object_graph_functions (hd meta_graphs)) options filters w)) (\<lambda>(L, w1).
           bind_result (get_node L 0) (\<lambda>root.
           bind_result (set_attribute root ''graph_debug_info'' (Opaque 1) w1) (\<lambda>w2.
           bind_result (set_attribute root ''tensorflow_version'' (Opaque 2) w2) (\<lambda>w3.
           bind_result (set_attribute root ''tensorflow_git_version'' (Opaque 3) w3) (\<lambda>w4.
           if filters_given filters
           then bind_result (get_all L (node_filter_paths L)) (\<lambda>items. Inr (items, w4))
           else Inr ([(''root'', root)], w4)))))))
      else if filters_given filters then Inl V1FiltersError
      else
        bind_result (load_v1 w) (\<lambda>(root, w1).
        bind_result (set_attribute root ''graph_debug_info'' (Opaque 1) w1) (\<lambda>w2.
        Inr ([(''root'', root)], w2))))"

subsection \<open>The wrapper of a restored function\<close>










subsection \<open>Well-formed graphs and examples\<close>

text \<open>
  The first invariant of the data model: every target of a child edge is a node of the
  graph.
\<close>

definition valid_targets :: "saved_object list \<Rightarrow> bool" where
  "valid_targets nodes =
     (\<forall>proto \<in> set nodes. \<forall>reference \<in> set (children proto). node_id reference < length nodes)"

text \<open>
  The graph of the scenarios: the root with the child \<open>child_layer\<close>, which has the child
  \<open>v\<close>, a variable.
\<close>

definition example_graph :: "saved_object list" where
  "example_graph =
     [\<lparr>children = [\<lparr>local_name = ''child_layer'', node_id = 1\<rparr>], slot_variables = [],
        saveable_objects = [], kind = UserObject\<rparr>,
      \<lparr>children = [\<lparr>local_name = ''v'', node_id = 2\<rparr>], slot_variables = [],
        saveable_objects = [], kind = UserObject\<rparr>,
      \<lparr>children = [], slot_variables = [], saveable_objects = [], kind = Variable\<rparr>]"

text \<open>
  Collaborators for the examples: no deserializer is registered; a library constructor
  returns an object of its kind, of class 1 to 6; \<open>add_slot\<close> returns a variable; a
  property of the object at address \<open>a\<close> is a value known by \<open>a\<close>; no entry is
  persisted.
\<close>

definition library_instance :: "kind \<Rightarrow> py_object" where
  "library_instance k =
     (case k of
        Asset \<Rightarrow> (user_object 1)\<lparr>is_asset := True\<rparr>
      | Function \<Rightarrow> user_object 2
      | BareConcreteFunction \<Rightarrow> user_object 3
      | Variable \<Rightarrow> (user_object 4)\<lparr>is_resource_variable := True\<rparr>
      | Constant \<Rightarrow> (user_object 5)\<lparr>is_trackable := False, is_tf_type := True\<rparr>
      | CapturedTensor \<Rightarrow> (user_object 5)\<lparr>is_trackable := False, is_tf_type := True\<rparr>
      | _ \<Rightarrow> user_object 6)"

definition example_env :: env where
  "example_env =
     \<lparr>deserialize = (\<lambda>nid. None),
      construct = (\<lambda>k nid. Inr (library_instance k)),
      add_slot = (\<lambda>h a var name. Inr (library_instance Variable)),
      ext_setattr = (\<lambda>n obj name v w. Inr w),
      initialize_method = (\<lambda>h a. Inr (Opaque (300 + a))),
      call_function = (\<lambda>h f. Inr (Opaque 400)),
      prop_handle = (\<lambda>h a. Inr (Opaque (100 + a))),
      prop_asset_path = (\<lambda>h a. Opaque (200 + a)),
      prop_resource_handle = (\<lambda>h a. Inr (Opaque (500 + a))),
      restored_resource_class = 7,
      executing_eagerly = True,
      persisted_entries = [],
      saver_objects = (\<lambda>h root. []),
      restore_ops = (\<lambda>nid. [])\<rparr>"

definition empty_world :: world where
  "empty_world =
     \<lparr>heap = Map.empty, next_addr = 0, next_class = 10, callable_classes = {},
      graph_ops = [], table_initializers = [], asset_filepaths = [],
      captured_inputs = Map.empty, bound_variables = Map.empty, trace = []\<rparr>"

text \<open>
  A loader after \<open>_load_nodes\<close> of a filtered load, for the resolution of captures: a
  distributed variable, a resource variable, an asset, a tensor, a resource (whose
  \<open>_initialize\<close> an edge has set), a plain object, and a node that was not loaded.
\<close>

definition capture_heap :: heap where
  "capture_heap =
     [0 \<mapsto> (user_object 4)\<lparr>is_distributed_variable := True, is_resource_variable := True\<rparr>,
      1 \<mapsto> library_instance Variable,
      2 \<mapsto> library_instance Asset,
      3 \<mapsto> library_instance Constant,
      4 \<mapsto> (restored_resource 7)\<lparr>attributes := [''_initialize'' \<mapsto> Ref 5]\<rparr>,
      5 \<mapsto> user_object 10]"

definition capture_loader :: loader where
  "capture_loader =
     \<lparr>proto_nodes = [], concrete_functions = [(''f'', [0, 1, 2, 3, 4])],
      node_filters = Some (FilterList [Str ''root.f'']), node_path_to_id = Some Map.empty,
      loaded_nodes = Map.empty, filtered_nodes = Some [],
      loader_nodes = [Ref 0, Ref 1, Ref 2, Ref 3, Ref 4, Ref 5, PyNone],
      node_setters = Map.empty\<rparr>"

text \<open>A SavedModel of TensorFlow 1: its meta graph has no object graph.\<close>

definition v1_meta_graph :: meta_graph where
  "v1_meta_graph =
     \<lparr>has_object_graph_def = False, object_graph_nodes = [], object_graph_functions = [],
      meta_tags = [''serve'']\<rparr>"

definition default_options :: load_options where
  "default_options = \<lparr>allow_partial_checkpoint = False, experimental_skip_checkpoint = False\<rparr>"

text \<open>
  A world with two instances of one registered class (20) and a function, for the wiring
  of a \<open>__call__\<close> edge; and the world of \<open>capture_heap\<close>.
\<close>

definition call_world :: world where
  "call_world =
     empty_world\<lparr>heap := [0 \<mapsto> user_object 20, 1 \<mapsto> user_object 20,
                           2 \<mapsto> library_instance Function],
                  next_addr := 3\<rparr>"

definition capture_world :: world where
  "capture_world = empty_world\<lparr>heap := capture_heap, next_addr := 6\<rparr>"

text \<open>The collaborators of the examples with a checkpoint and the objects the saver finds.\<close>

definition checkpoint_env :: "nat list \<Rightarrow> nat list \<Rightarrow> env" where
  "checkpoint_env entries objects =
     example_env\<lparr>persisted_entries := entries, saver_objects := (\<lambda>h root. objects)\<rparr>"




text \<open>The same collaborators outside eager execution.\<close>

definition graph_mode_env :: "nat list \<Rightarrow> nat list \<Rightarrow> env" where
  "graph_mode_env entries objects = (checkpoint_env entries objects)\<lparr>executing_eagerly := False\<rparr>"

section \<open>Properties\<close>

subsection \<open>Splitting and joining paths\<close>

lemma split_dot_ne: "split_dot s \<noteq> []"
  by (induction s) (auto split: list.splits)

lemma split_dot_no_dot: "x \<in> set (split_dot s) \<Longrightarrow> CHR ''.'' \<notin> set x"
proof (induction s arbitrary: x)
  case Nil then show ?case by simp
next
  case (Cons c cs)
  obtain w ws where ws: "split_dot cs = w # ws"
    using split_dot_ne[of cs] by (cases "split_dot cs") auto
  show ?case
  proof (cases "c = CHR ''.''")
    case True
    with Cons show ?thesis by auto
  next
    case False
    with Cons.prems ws have "x = c # w \<or> x \<in> set ws" by simp
    then show ?thesis using Cons.IH ws False by auto
  qed
qed

lemma split_dot_plain: "CHR ''.'' \<notin> set name \<Longrightarrow> split_dot name = [name]"
  by (induction name) auto

lemma split_dot_append:
  "CHR ''.'' \<notin> set name \<Longrightarrow> split_dot (p @ ''.'' @ name) = split_dot p @ [name]"
proof (induction p)
  case Nil
  then show ?case by (simp add: split_dot_plain)
next
  case (Cons c cs)
  then show ?case using split_dot_ne[of cs] by (cases "split_dot cs") auto
qed

lemma split_dot_Cons_segment:
  "CHR ''.'' \<notin> set x \<Longrightarrow> split_dot (x @ CHR ''.'' # rest) = x # split_dot rest"
  by (induction x) auto

lemma split_join:
  "xs \<noteq> [] \<Longrightarrow> \<forall>x \<in> set xs. CHR ''.'' \<notin> set x \<Longrightarrow> split_dot (join_dot xs) = xs"
proof (induction xs rule: join_dot.induct)
  case 1 then show ?case by simp
next
  case (2 x) then show ?case by (simp add: split_dot_plain)
next
  case (3 x y ys)
  then show ?case by (simp add: split_dot_Cons_segment)
qed

lemma walk_names_append:
  "walk_names nodes np n (xs @ ys) i =
     (case walk_names nodes np n xs i of Inl e \<Rightarrow> Inl e
      | Inr j \<Rightarrow> walk_names nodes np (n + length xs) ys j)"
  by (induction xs arbitrary: n i) (auto split: sum.splits)

lemma walk_names_Inr_indep:
  "walk_names nodes np n xs i = Inr j \<Longrightarrow> walk_names nodes np' n' xs i = Inr j"
  by (induction xs arbitrary: n n' i) (auto simp: find_node_child_def split: sum.splits if_splits option.splits)


subsection \<open>Path resolution\<close>

lemma join_dot_snoc: "xs \<noteq> [] \<Longrightarrow> join_dot (xs @ [x]) = join_dot xs @ ''.'' @ x"
  by (induction xs rule: join_dot.induct) auto

lemma find_node_child_valid:
  "valid_targets nodes \<Longrightarrow> find_node_child nodes i name p = Inr j \<Longrightarrow> j < length nodes"
proof -
  assume v: "valid_targets nodes" and f: "find_node_child nodes i name p = Inr j"
  from f have i: "i < length nodes" by (auto simp: find_node_child_def split: if_splits)
  from f i obtain reference where
    "find (\<lambda>reference. local_name reference = name) (children (nodes ! i)) = Some reference"
    and j: "j = node_id reference"
    by (auto simp: find_node_child_def split: option.splits)
  then have "reference \<in> set (children (nodes ! i))"
    by (auto simp: find_Some_iff)
  moreover have "nodes ! i \<in> set nodes" using i by simp
  ultimately show ?thesis using v j unfolding valid_targets_def by blast
qed

lemma walk_names_error:
  "valid_targets nodes \<Longrightarrow> i < length nodes \<Longrightarrow> walk_names nodes np n names i = Inl e
     \<Longrightarrow> \<exists>p. e = UnknownChildError p"
proof (induction names arbitrary: n i)
  case Nil then show ?case by simp
next
  case (Cons name names)
  show ?case
  proof (cases "find_node_child nodes i name (join_dot (take (n + 2) np))")
    case (Inl e')
    with Cons.prems show ?thesis
      by (auto simp: find_node_child_def split: if_splits option.splits)
  next
    case (Inr j)
    with Cons.prems have "walk_names nodes np (Suc n) names j = Inl e" by simp
    moreover have "j < length nodes" using find_node_child_valid[OF Cons.prems(1) Inr] .
    ultimately show ?thesis using Cons.IH Cons.prems(1) by blast
  qed
qed

lemma resolve_path_missing_child:
  assumes root: "hd (split_dot path) = ''root''"
    and k: "Suc k < length (split_dot path)"
    and parent: "resolve_path nodes (join_dot (take (Suc k) (split_dot path))) = Inr parent"
    and range: "parent < length nodes"
    and missing: "\<forall>reference \<in> set (children (nodes ! parent)). local_name reference \<noteq> split_dot path ! Suc k"
  shows "resolve_path nodes path =
           Inl (UnknownChildError (join_dot (take (Suc k) (split_dot path)) @ ''.'' @ split_dot path ! Suc k))"
proof -
  define segs where "segs = split_dot path"
  define names where "names = tl segs"
  have segs: "segs = ''root'' # names"
    using root split_dot_ne[of path] by (cases segs) (auto simp: segs_def names_def)
  have klen: "k < length names" using k by (simp add: segs_def[symmetric] segs)
  have pre: "take (Suc k) segs = ''root'' # take k names" by (simp add: segs)
  have nodot: "\<forall>x \<in> set (take (Suc k) segs). CHR ''.'' \<notin> set x"
    using split_dot_no_dot[of _ path] by (auto simp: segs_def dest: in_set_takeD)
  have sj: "split_dot (join_dot (take (Suc k) segs)) = take (Suc k) segs"
    by (rule split_join) (use nodot pre in auto)
  have "walk_names nodes (take (Suc k) segs) 0 (take k names) 0 = Inr parent"
    using parent unfolding resolve_path_def segs_def[symmetric] sj by (simp add: pre Let_def)
  then have w: "walk_names nodes segs 0 (take k names) 0 = Inr parent"
    by (rule walk_names_Inr_indep)
  have split: "names = take k names @ (names ! k) # drop (Suc k) names"
    using klen by (simp add: id_take_nth_drop)
  have nth: "segs ! Suc k = names ! k" by (simp add: segs)
  have fnd: "find (\<lambda>reference. local_name reference = names ! k) (children (nodes ! parent)) = None"
    using missing by (auto simp: find_None_iff segs_def[symmetric] nth)
  have len: "min (length names) k = k" using klen by simp
  have "walk_names nodes segs 0 names 0 =
          Inl (UnknownChildError (join_dot (take (k + 2) segs)))"
    by (subst split, subst walk_names_append) (simp add: w len find_node_child_def range fnd)
  moreover have "take (k + 2) segs = take (Suc k) segs @ [segs ! Suc k]"
    using k by (simp add: segs_def[symmetric] take_Suc_conv_app_nth)
  moreover have "join_dot (take (Suc k) segs @ [segs ! Suc k]) =
      join_dot (take (Suc k) segs) @ ''.'' @ segs ! Suc k"
    by (rule join_dot_snoc) (simp add: pre)
  ultimately have "walk_names nodes segs 0 names 0 =
      Inl (UnknownChildError (join_dot (take (Suc k) segs) @ ''.'' @ segs ! Suc k))"
    by (simp only:)
  moreover have "resolve_path nodes path = walk_names nodes segs 0 names 0"
    using root by (simp add: resolve_path_def Let_def segs_def names_def)
  ultimately show ?thesis by (simp add: segs_def)
qed


lemma example_graph_child_layer: "resolve_path example_graph ''root.child_layer'' = Inr 1"
  by (simp add: resolve_path_def example_graph_def find_node_child_def)

lemma valid_targets_example_graph: "valid_targets example_graph"
  by (simp add: valid_targets_def example_graph_def)

text \<open>
  C8, as amended. Resolving a filter path splits it on the dot and fails with
  \<open>MalformedPathError\<close> when the first segment is not \<open>root\<close>. Otherwise it walks the
  segments through child-edge lookups: when the segments before position \<open>k + 1\<close> resolve
  to a node \<open>parent\<close> that has no child edge named by segment \<open>k + 1\<close>, resolution
  fails with \<open>UnknownChildError\<close>, and the path the error carries is the requested path
  up to and including the missing segment (the parent path, a dot, the missing name), not
  the parent path. On a non-empty graph whose edge targets are valid, a path that starts
  with \<open>root\<close> and does not resolve fails with \<open>UnknownChildError\<close> and nothing else.
\<close>

theorem resolve_path_failures:
  "(hd (split_dot path) \<noteq> ''root'' \<longrightarrow> resolve_path nodes path = Inl MalformedPathError) \<and>
   (hd (split_dot path) = ''root'' \<and> Suc k < length (split_dot path) \<and>
    resolve_path nodes (join_dot (take (Suc k) (split_dot path))) = Inr parent \<and>
    parent < length nodes \<and>
    (\<forall>reference \<in> set (children (nodes ! parent)).
       local_name reference \<noteq> split_dot path ! Suc k)
    \<longrightarrow> resolve_path nodes path =
          Inl (UnknownChildError
                 (join_dot (take (Suc k) (split_dot path)) @ ''.'' @ split_dot path ! Suc k))) \<and>
   (hd (split_dot path) = ''root'' \<and> nodes \<noteq> [] \<and> valid_targets nodes \<and>
    resolve_path nodes path = Inl e \<longrightarrow> (\<exists>p. e = UnknownChildError p))"
proof (intro conjI impI)
  assume "hd (split_dot path) \<noteq> ''root''"
  then show "resolve_path nodes path = Inl MalformedPathError"
    by (simp add: resolve_path_def Let_def)
next
  assume "hd (split_dot path) = ''root'' \<and> Suc k < length (split_dot path) \<and>
    resolve_path nodes (join_dot (take (Suc k) (split_dot path))) = Inr parent \<and>
    parent < length nodes \<and>
    (\<forall>reference \<in> set (children (nodes ! parent)).
       local_name reference \<noteq> split_dot path ! Suc k)"
  then show "resolve_path nodes path =
          Inl (UnknownChildError
                 (join_dot (take (Suc k) (split_dot path)) @ ''.'' @ split_dot path ! Suc k))"
    using resolve_path_missing_child by blast
next
  assume a: "hd (split_dot path) = ''root'' \<and> nodes \<noteq> [] \<and> valid_targets nodes \<and>
    resolve_path nodes path = Inl e"
  then have r: "hd (split_dot path) = ''root''" and "resolve_path nodes path = Inl e" by auto
  then have "walk_names nodes (split_dot path) 0 (tl (split_dot path)) 0 = Inl e"
    by (simp add: resolve_path_def Let_def)
  then show "\<exists>p. e = UnknownChildError p"
    using walk_names_error[of nodes 0] a by blast
qed


text \<open>
  C8 as stated fails: in the example graph \<open>root.child_layer\<close> resolves to node 1, which
  has no child \<open>w\<close>, and the error for \<open>root.child_layer.w\<close> carries that whole path
  where the claim has the parent path \<open>root.child_layer\<close>.
\<close>

theorem resolve_path_parent_path_counterexample:
  "resolve_path example_graph ''root.child_layer'' = Inr 1 \<and>
   resolve_path example_graph ''root.child_layer.w'' =
     Inl (UnknownChildError ''root.child_layer.w'') \<and>
   resolve_path example_graph ''root.child_layer.w'' \<noteq>
     Inl (UnknownChildError ''root.child_layer'')"
  by (simp add: resolve_path_def example_graph_def find_node_child_def)

theorem resolve_path_failures_witness:
  "resolve_path example_graph ''model.child_layer'' = Inl MalformedPathError \<and>
   resolve_path example_graph ''root.child_layer'' = Inr 1 \<and>
   resolve_path example_graph ''root.child_layer.w'' =
     Inl (UnknownChildError ''root.child_layer.w'') \<and>
   valid_targets example_graph \<and> example_graph \<noteq> []"
proof -
  have s1: "split_dot ''model.child_layer'' = [''model'', ''child_layer'']" by simp
  have s2: "split_dot ''root.child_layer.w'' = [''root'', ''child_layer'', ''w'']" by simp
  have ne: "example_graph \<noteq> []" by (simp add: example_graph_def)
  have c1: "children (example_graph ! Suc 0) = [\<lparr>local_name = ''v'', node_id = 2\<rparr>]"
    by (simp add: example_graph_def)
  have len: "length example_graph = 3" by (simp add: example_graph_def)
  have a: "resolve_path example_graph ''model.child_layer'' = Inl MalformedPathError"
    using resolve_path_failures[of "''model.child_layer''" example_graph 0 0 MalformedPathError]
    by (simp add: s1)
  have b: "resolve_path example_graph ''root.child_layer.w'' =
             Inl (UnknownChildError ''root.child_layer.w'')"
    using resolve_path_failures[of "''root.child_layer.w''" example_graph 1 1 MalformedPathError,
        THEN conjunct2, THEN conjunct1]
    by (simp add: s2 example_graph_child_layer c1 len)
  have "\<exists>q. UnknownChildError ''root.child_layer.w'' = UnknownChildError q"
    using resolve_path_failures[of "''root.child_layer.w''" example_graph 1 1
        "UnknownChildError ''root.child_layer.w''", THEN conjunct2, THEN conjunct2]
    by (simp add: s2 b valid_targets_example_graph ne)
  show ?thesis
    using a b example_graph_child_layer valid_targets_example_graph ne by simp
qed

subsection \<open>The entry point and TensorFlow 1 models\<close>

lemma bind_result_Inl [simp]: "bind_result (Inl e) f = Inl e"
  by (simp add: bind_result_def)

lemma bind_result_Inr [simp]: "bind_result (Inr x) f = f x"
  by (simp add: bind_result_def)

text \<open>
  C9. A load that is given filters (a non-empty list or dictionary) for a SavedModel that
  does not consist of one meta graph with an object graph fails with the error "cannot be
  loaded with node filters"; the loader of such models (\<open>load_v1\<close>) is not run, whatever
  it is, and no items are returned.
\<close>

theorem load_internal_v1_filters:
  assumes "filters_given filters"
    and "\<not> (length meta_graphs = 1 \<and> has_object_graph_def (hd meta_graphs))"
  shows "load_internal E load_v1 meta_graphs tags options filters w = Inl V1FiltersError"
proof -
  have "(if length meta_graphs = 1 \<and> has_object_graph_def (hd meta_graphs) then x else y) = y"
    for x y :: "error + (string \<times> pyobj) list \<times> world"
    using assms(2) by (simp only: if_False)
  then show ?thesis
    unfolding load_internal_def using assms(1) by simp
qed

theorem load_internal_v1_filters_witness:
  "filters_given (Some (FilterList [Str ''root.child_layer''])) \<and>
   \<not> (length [v1_meta_graph] = 1 \<and> has_object_graph_def (hd [v1_meta_graph])) \<and>
   load_internal example_env (\<lambda>w. Inr (Ref 0, w)) [v1_meta_graph] None
     default_options
     (Some (FilterList [Str ''root.child_layer''])) empty_world = Inl V1FiltersError"
proof -
  have f: "filters_given (Some (FilterList [Str ''root.child_layer'']))"
    by (simp add: filters_given_def)
  have m: "\<not> (length [v1_meta_graph] = 1 \<and> has_object_graph_def (hd [v1_meta_graph]))"
    by (simp add: v1_meta_graph_def)
  show ?thesis
    using f m load_internal_v1_filters[OF f m, of example_env "\<lambda>w. Inr (Ref 0, w)" None
        default_options empty_world]
    by simp
qed

subsection \<open>Resolution of captures\<close>

text \<open>
  C4. For a bound input whose node is \<open>obj\<close>, \<open>_get_tensor_from_node\<close> takes the first
  of these that applies: a distributed variable resolves to itself; a resource variable
  to its \<open>handle\<close>; an asset to its \<open>asset_path\<close>; a tensor to itself; a capturable
  resource to its \<open>resource_handle\<close> (the property runs the resource's restored
  functions); any other object fails with \<open>CaptureResolutionError\<close>; and in a load with
  filters a node that was not loaded (\<open>None\<close>) fails with \<open>MissingDependencyError\<close>,
  which carries the name of the function.
\<close>

theorem get_tensor_from_node_resolution:
  assumes "nid < length (loader_nodes L)" and "obj = loader_nodes L ! nid"
  shows
   "(py_is is_distributed_variable h obj \<longrightarrow>
       get_tensor_from_node E L h nid fn_name = Inr obj) \<and>
    (\<not> py_is is_distributed_variable h obj \<and> py_is is_resource_variable h obj \<longrightarrow>
       get_tensor_from_node E L h nid fn_name = read_property (prop_handle E) h obj) \<and>
    (\<not> py_is is_distributed_variable h obj \<and> \<not> py_is is_resource_variable h obj \<and>
     py_is is_asset h obj \<longrightarrow>
       (\<exists>a. obj = Ref a \<and> get_tensor_from_node E L h nid fn_name = Inr (prop_asset_path E h a))) \<and>
    (\<not> py_is is_distributed_variable h obj \<and> \<not> py_is is_resource_variable h obj \<and>
     \<not> py_is is_asset h obj \<and> py_is_tf_type h obj \<longrightarrow>
       get_tensor_from_node E L h nid fn_name = Inr obj) \<and>
    (\<not> py_is is_distributed_variable h obj \<and> \<not> py_is is_resource_variable h obj \<and>
     \<not> py_is is_asset h obj \<and> \<not> py_is_tf_type h obj \<and> py_is is_capturable_resource h obj \<longrightarrow>
       get_tensor_from_node E L h nid fn_name = read_property (prop_resource_handle E) h obj) \<and>
    (\<not> py_is is_distributed_variable h obj \<and> \<not> py_is is_resource_variable h obj \<and>
     \<not> py_is is_asset h obj \<and> \<not> py_is_tf_type h obj \<and> \<not> py_is is_capturable_resource h obj \<and>
     obj \<noteq> PyNone \<longrightarrow>
       get_tensor_from_node E L h nid fn_name = Inl CaptureResolutionError) \<and>
    (node_filters L \<noteq> None \<and> obj = PyNone \<longrightarrow>
       get_tensor_from_node E L h nid fn_name = Inl (MissingDependencyError fn_name))"
  using assms
  by (auto simp: get_tensor_from_node_def Let_def py_is_def py_is_tf_type_def read_property_def
           split: pyobj.splits option.splits)

lemma capture_heap_tests:
  "py_is is_distributed_variable capture_heap (Ref 0)"
  "\<not> py_is is_distributed_variable capture_heap (Ref 1)"
  "py_is is_resource_variable capture_heap (Ref 1)"
  "\<not> py_is is_distributed_variable capture_heap (Ref 2)"
  "\<not> py_is is_resource_variable capture_heap (Ref 2)"
  "py_is is_asset capture_heap (Ref 2)"
  "\<not> py_is is_distributed_variable capture_heap (Ref 3)"
  "\<not> py_is is_resource_variable capture_heap (Ref 3)"
  "\<not> py_is is_asset capture_heap (Ref 3)"
  "py_is_tf_type capture_heap (Ref 3)"
  "\<not> py_is is_distributed_variable capture_heap (Ref 4)"
  "\<not> py_is is_resource_variable capture_heap (Ref 4)"
  "\<not> py_is is_asset capture_heap (Ref 4)"
  "\<not> py_is_tf_type capture_heap (Ref 4)"
  "py_is is_capturable_resource capture_heap (Ref 4)"
  "\<not> py_is is_distributed_variable capture_heap (Ref 5)"
  "\<not> py_is is_resource_variable capture_heap (Ref 5)"
  "\<not> py_is is_asset capture_heap (Ref 5)"
  "\<not> py_is_tf_type capture_heap (Ref 5)"
  "\<not> py_is is_capturable_resource capture_heap (Ref 5)"
  by (simp_all add: py_is_def py_is_tf_type_def capture_heap_def library_instance_def
        user_object_def restored_resource_def)

lemma capture_loader_nodes:
  "length (loader_nodes capture_loader) = 7"
  "loader_nodes capture_loader ! 0 = Ref 0"
  "loader_nodes capture_loader ! 1 = Ref 1"
  "loader_nodes capture_loader ! 2 = Ref 2"
  "loader_nodes capture_loader ! 3 = Ref 3"
  "loader_nodes capture_loader ! 4 = Ref 4"
  "loader_nodes capture_loader ! 5 = Ref 5"
  "loader_nodes capture_loader ! 6 = PyNone"
  "node_filters capture_loader \<noteq> None"
  by (simp_all add: capture_loader_def)

theorem get_tensor_from_node_resolution_witness:
  "get_tensor_from_node example_env capture_loader capture_heap 0 ''f'' = Inr (Ref 0) \<and>
   get_tensor_from_node example_env capture_loader capture_heap 1 ''f'' = Inr (Opaque 101) \<and>
   get_tensor_from_node example_env capture_loader capture_heap 2 ''f'' = Inr (Opaque 202) \<and>
   get_tensor_from_node example_env capture_loader capture_heap 3 ''f'' = Inr (Ref 3) \<and>
   get_tensor_from_node example_env capture_loader capture_heap 4 ''f'' = Inr (Opaque 504) \<and>
   get_tensor_from_node example_env capture_loader capture_heap 5 ''f'' = Inl CaptureResolutionError \<and>
   get_tensor_from_node example_env capture_loader capture_heap 6 ''f'' =
     Inl (MissingDependencyError ''f'')"
proof -
  note T = get_tensor_from_node_resolution[where L = capture_loader and h = capture_heap
      and E = example_env and fn_name = "''f''"]
  have p: "read_property (prop_handle example_env) capture_heap (Ref 1) = Inr (Opaque 101)"
    "read_property (prop_resource_handle example_env) capture_heap (Ref 4) = Inr (Opaque 504)"
    "prop_asset_path example_env capture_heap 2 = Opaque 202"
    by (simp_all add: read_property_def example_env_def)
  have "get_tensor_from_node example_env capture_loader capture_heap 0 ''f'' = Inr (Ref 0)"
    using T[of 0 "Ref 0"] by (simp add: capture_loader_nodes capture_heap_tests del: One_nat_def)
  moreover have "get_tensor_from_node example_env capture_loader capture_heap 1 ''f'' = Inr (Opaque 101)"
    using T[of 1 "Ref 1"] by (simp add: capture_loader_nodes capture_heap_tests p del: One_nat_def)
  moreover have "get_tensor_from_node example_env capture_loader capture_heap 2 ''f'' = Inr (Opaque 202)"
    using T[of 2 "Ref 2"] by (simp add: capture_loader_nodes capture_heap_tests p del: One_nat_def)
  moreover have "get_tensor_from_node example_env capture_loader capture_heap 3 ''f'' = Inr (Ref 3)"
    using T[of 3 "Ref 3"] by (simp add: capture_loader_nodes capture_heap_tests del: One_nat_def)
  moreover have "get_tensor_from_node example_env capture_loader capture_heap 4 ''f'' = Inr (Opaque 504)"
    using T[of 4 "Ref 4"] by (simp add: capture_loader_nodes capture_heap_tests p del: One_nat_def)
  moreover have "get_tensor_from_node example_env capture_loader capture_heap 5 ''f'' =
      Inl CaptureResolutionError"
    using T[of 5 "Ref 5"] by (simp add: capture_loader_nodes capture_heap_tests del: One_nat_def)
  moreover have "get_tensor_from_node example_env capture_loader capture_heap 6 ''f'' =
      Inl (MissingDependencyError ''f'')"
    using T[of 6 PyNone] by (simp add: capture_loader_nodes)
  ultimately show ?thesis by simp
qed

subsection \<open>The callable marker\<close>

text \<open>
  C7. When the edge \<open>__call__\<close> has been set on an object whose type has no
  \<open>__call__\<close>, \<open>_add_object_graph_edges\<close> adds it to the type: the world differs from
  the one the setter left only in the set of callable types, which gains the type of the
  object, and every object of that type is callable afterwards.
\<close>

theorem call_edge_makes_type_callable:
  assumes name: "local_name reference = ''__call__''"
    and range: "node_id reference < length nodes"
    and setter: "apply_setter E s obj ''__call__'' (nodes ! node_id reference) w = Inr w1"
    and obj: "obj = Ref a" "heap w1 a = Some ob"
    and not_callable: "\<not> py_callable w1 obj"
  shows "add_edge E nodes obj s reference w =
           Inr (w1\<lparr>callable_classes := insert (py_class ob) (callable_classes w1)\<rparr>) \<and>
         (\<forall>a' ob'. heap w1 a' = Some ob' \<and> py_class ob' = py_class ob \<longrightarrow>
            py_callable (w1\<lparr>callable_classes := insert (py_class ob) (callable_classes w1)\<rparr>)
              (Ref a'))"
  using assms by (simp add: add_edge_def set_type_call_def py_callable_def)

theorem call_edge_makes_type_callable_witness:
  "\<not> py_callable call_world (Ref 0) \<and> \<not> py_callable call_world (Ref 1) \<and>
   (\<exists>w'. add_edge example_env [Ref 0, Ref 1, Ref 2] (Ref 0) Setattr
            \<lparr>local_name = ''__call__'', node_id = 2\<rparr> call_world = Inr w' \<and>
         py_callable w' (Ref 0) \<and> py_callable w' (Ref 1) \<and> \<not> py_callable w' (Ref 2))"
proof -
  define w1 where "w1 = call_world\<lparr>heap := (heap call_world)
      (0 \<mapsto> (user_object 20)\<lparr>attributes := (attributes (user_object 20))(''__call__'' \<mapsto> Ref 2)\<rparr>)\<rparr>"
  define ob where "ob = (user_object 20)\<lparr>attributes := (attributes (user_object 20))(''__call__'' \<mapsto> Ref 2)\<rparr>"
  have s: "apply_setter example_env Setattr (Ref 0) ''__call__''
             ([Ref 0, Ref 1, Ref 2] ! node_id \<lparr>local_name = ''__call__'', node_id = 2\<rparr>) call_world
           = Inr w1"
    by (simp add: apply_setter_def set_attribute_def call_world_def w1_def)
  have h: "heap w1 0 = Some ob" by (simp add: w1_def ob_def)
  have h1: "heap w1 (Suc 0) = Some (user_object 20)" by (simp add: w1_def call_world_def)
  have h2: "heap w1 2 = Some (library_instance Function)" by (simp add: w1_def call_world_def)
  have c: "py_class ob = 20" by (simp add: ob_def user_object_def)
  have cc: "callable_classes w1 = {}" by (simp add: w1_def call_world_def empty_world_def)
  have n: "\<not> py_callable w1 (Ref 0)" by (simp add: py_callable_def h cc)
  note T = call_edge_makes_type_callable[of "\<lparr>local_name = ''__call__'', node_id = 2\<rparr>"
      "[Ref 0, Ref 1, Ref 2]" example_env Setattr "Ref 0" call_world w1 0 ob, OF _ _ s _ h n]
  have T': "add_edge example_env [Ref 0, Ref 1, Ref 2] (Ref 0) Setattr
              \<lparr>local_name = ''__call__'', node_id = 2\<rparr> call_world =
            Inr (w1\<lparr>callable_classes := insert (py_class ob) (callable_classes w1)\<rparr>) \<and>
         (\<forall>a' ob'. heap w1 a' = Some ob' \<and> py_class ob' = py_class ob \<longrightarrow>
            py_callable (w1\<lparr>callable_classes := insert (py_class ob) (callable_classes w1)\<rparr>)
              (Ref a'))"
    using T by simp
  have a0: "py_callable (w1\<lparr>callable_classes := insert (py_class ob) (callable_classes w1)\<rparr>) (Ref 0)"
    using T' h by blast
  have a1: "py_callable (w1\<lparr>callable_classes := insert (py_class ob) (callable_classes w1)\<rparr>) (Ref (Suc 0))"
    using T' h1 c by (simp add: user_object_def)
  have a2: "\<not> py_callable (w1\<lparr>callable_classes := insert (py_class ob) (callable_classes w1)\<rparr>) (Ref 2)"
    by (simp add: py_callable_def h2 c cc library_instance_def user_object_def)
  have b: "\<not> py_callable call_world (Ref 0)" "\<not> py_callable call_world (Ref 1)"
    by (simp_all add: py_callable_def call_world_def empty_world_def)
  show ?thesis using T' a0 a1 a2 b by auto
qed

subsection \<open>Restoring the checkpoint\<close>

lemma filter_empty_iff: "filter P xs = [] \<longleftrightarrow> (\<forall>x \<in> set xs. \<not> P x)"
  by (induction xs) auto

text \<open>
  C2, against the saver as the design document describes it. With
  \<open>allow_partial_checkpoint\<close> the restore fails with \<open>NoMatchError\<close> when no persisted
  entry matches a constructed object, and otherwise goes on (in eager execution it
  succeeds; outside it the restore operations of the matched objects are wired), whether
  or not some persisted entries are unmatched. Without it the restore fails with
  \<open>UnmatchedObjectsError\<close> when a constructed object has no persisted entry, and when a
  persisted entry has no constructed object.
\<close>

theorem restore_checkpoint_modes:
  assumes root: "get_node L 0 = Inr root"
    and objects: "objects = saver_objects E (heap w) root"
  shows
   "((\<forall>nid \<in> set (persisted_entries E). nid \<notin> set objects) \<longrightarrow>
       restore_checkpoint E L True w = Inl NoMatchError) \<and>
    ((\<exists>nid \<in> set (persisted_entries E). nid \<in> set objects) \<and> executing_eagerly E \<longrightarrow>
       restore_checkpoint E L True w = Inr (log_event CheckpointRestored w)) \<and>
    ((\<exists>nid \<in> set (persisted_entries E). nid \<in> set objects) \<and> \<not> executing_eagerly E \<longrightarrow>
       restore_checkpoint E L True w =
         wire_restore_ops E L (filter (\<lambda>nid. nid \<in> set objects) (persisted_entries E))
           (log_event CheckpointRestored w)) \<and>
    ((\<exists>nid \<in> set objects. nid \<notin> set (persisted_entries E)) \<longrightarrow>
       restore_checkpoint E L False w = Inl UnmatchedObjectsError) \<and>
    ((\<exists>nid \<in> set (persisted_entries E). nid \<notin> set objects) \<longrightarrow>
       restore_checkpoint E L False w = Inl UnmatchedObjectsError)"
  using assms
  by (auto simp: restore_checkpoint_def assert_nontrivial_match_def
        assert_existing_objects_matched_def saver_restore_def filter_empty_iff)

lemma checkpoint_env_simps:
  "persisted_entries (checkpoint_env entries objects) = entries"
  "saver_objects (checkpoint_env entries objects) h root = objects"
  "executing_eagerly (checkpoint_env entries objects)"
  by (simp_all add: checkpoint_env_def example_env_def)

lemma capture_loader_root: "get_node capture_loader 0 = Inr (Ref 0)"
  by (simp add: get_node_def capture_loader_def)

theorem restore_checkpoint_modes_witness:
  "restore_checkpoint (checkpoint_env [9] [2]) capture_loader True capture_world =
     Inl NoMatchError \<and>
   restore_checkpoint (checkpoint_env [2, 9] [2]) capture_loader True capture_world =
     Inr (log_event CheckpointRestored capture_world) \<and>
   restore_checkpoint (checkpoint_env [2] [2, 3]) capture_loader False capture_world =
     Inl UnmatchedObjectsError \<and>
   restore_checkpoint (checkpoint_env [2, 9] [2]) capture_loader False capture_world =
     Inl UnmatchedObjectsError"
proof -
  note T = restore_checkpoint_modes[OF capture_loader_root, where w = capture_world]
  have a: "restore_checkpoint (checkpoint_env [9] [2]) capture_loader True capture_world =
     Inl NoMatchError"
    using T[of "[2]" "checkpoint_env [9] [2]"] by (simp add: checkpoint_env_simps)
  have b: "restore_checkpoint (checkpoint_env [2, 9] [2]) capture_loader True capture_world =
     Inr (log_event CheckpointRestored capture_world)"
    using T[of "[2]" "checkpoint_env [2, 9] [2]"] by (simp add: checkpoint_env_simps)
  have c: "restore_checkpoint (checkpoint_env [2] [2, 3]) capture_loader False capture_world =
     Inl UnmatchedObjectsError"
    using T[of "[2, 3]" "checkpoint_env [2] [2, 3]"] by (simp add: checkpoint_env_simps)
  have d: "restore_checkpoint (checkpoint_env [2, 9] [2]) capture_loader False capture_world =
     Inl UnmatchedObjectsError"
    using T[of "[2]" "checkpoint_env [2, 9] [2]"] by (simp add: checkpoint_env_simps)
  show ?thesis using a b c d by simp
qed

subsection \<open>Calls of a restored function\<close>










subsection \<open>Initialization of the resources\<close>

lemma call_initialize_heap:
  "heap w = heap w2 \<Longrightarrow> call_initialize E w node = call_initialize E w2 node"
  unfolding call_initialize_def by (simp only:)

lemma initialize_resources_spec:
  "initialize_resources E nodes w = Inr w' \<Longrightarrow>
     \<exists>init_ops.
       heap w' = heap w \<and>
       map (call_initialize E w) (filter (py_is is_capturable_resource (heap w)) nodes) =
         map Inr init_ops \<and>
       trace w' = trace w @
         map2 Initialized (filter (py_is is_capturable_resource (heap w)) nodes) init_ops \<and>
       table_initializers w' =
         (if executing_eagerly E then table_initializers w
          else table_initializers w @ map Item init_ops)"
proof (induction nodes arbitrary: w)
  case Nil
  then show ?case by simp
next
  case (Cons node nodes)
  show ?case
  proof (cases "py_is is_capturable_resource (heap w) node")
    case False
    with Cons.prems have "initialize_resources E nodes w = Inr w'" by simp
    from Cons.IH[OF this] False show ?thesis by simp
  next
    case True
    with Cons.prems obtain init_op where
      c: "call_initialize E w node = Inr init_op"
      and r: "initialize_resources E nodes
               (log_event (Initialized node init_op)
                  (if executing_eagerly E then w
                   else w\<lparr>table_initializers := table_initializers w @ [Item init_op]\<rparr>)) = Inr w'"
      by (auto split: sum.splits)
    define w1 where "w1 = log_event (Initialized node init_op)
                  (if executing_eagerly E then w
                   else w\<lparr>table_initializers := table_initializers w @ [Item init_op]\<rparr>)"
    have h1: "heap w1 = heap w" and t1: "trace w1 = trace w @ [Initialized node init_op]"
      and i1: "table_initializers w1 =
                 (if executing_eagerly E then table_initializers w
                  else table_initializers w @ [Item init_op])"
      by (simp_all add: w1_def log_event_def)
    from Cons.IH[OF r[folded w1_def]] obtain ops where
      IH: "heap w' = heap w1"
        "map (call_initialize E w1) (filter (py_is is_capturable_resource (heap w1)) nodes) =
           map Inr ops"
        "trace w' = trace w1 @
           map2 Initialized (filter (py_is is_capturable_resource (heap w1)) nodes) ops"
        "table_initializers w' =
           (if executing_eagerly E then table_initializers w1
            else table_initializers w1 @ map Item ops)"
      by blast
    have ci: "call_initialize E w1 = call_initialize E w"
      using call_initialize_heap[OF h1] by blast
    have "heap w' = heap w \<and>
       map (call_initialize E w) (filter (py_is is_capturable_resource (heap w)) (node # nodes)) =
         map Inr (init_op # ops) \<and>
       trace w' = trace w @
         map2 Initialized (filter (py_is is_capturable_resource (heap w)) (node # nodes))
           (init_op # ops) \<and>
       table_initializers w' =
         (if executing_eagerly E then table_initializers w
          else table_initializers w @ map Item (init_op # ops))"
      using IH True c by (simp add: h1 t1 i1 ci)
    then show ?thesis by blast
  qed
qed

lemma wire_restore_ops_trace:
  "wire_restore_ops E L ids w = Inr w' \<Longrightarrow> trace w' = trace w"
proof (induction ids arbitrary: w)
  case Nil
  then show ?case by simp
next
  case (Cons object_id ids)
  from Cons.prems obtain obj where obj: "get_node L object_id = Inr obj"
    by (auto split: sum.splits)
  show ?case
  proof (cases "restore_ops E object_id = []")
    case True
    with Cons.prems obj have "wire_restore_ops E L ids w = Inr w'" by simp
    then show ?thesis by (rule Cons.IH)
  next
    case False
    show ?thesis
    proof (cases "py_is is_resource_variable (heap w) obj")
      case True
      with Cons.prems obj False obtain w1 where
        s: "(if length (restore_ops E object_id) = 1
                   then set_attribute obj ''_initializer_op'' (hd (restore_ops E object_id)) w
                   else set_attribute obj ''_initializer_op'' (OpOutput (length (graph_ops w)))
                          (w\<lparr>graph_ops := graph_ops w @ [GroupOp (restore_ops E object_id)]\<rparr>))
             = Inr w1"
        and r: "wire_restore_ops E L ids w1 = Inr w'"
        by (auto split: sum.splits)
      have "trace w1 = trace w"
        using s by (auto simp: set_attribute_def split: if_splits pyobj.splits option.splits)
      with Cons.IH[OF r] show ?thesis by simp
    next
      case nv: False
      with Cons.prems obj False have
        "wire_restore_ops E L ids
              (w\<lparr>table_initializers :=
                   table_initializers w @ [ItemList (restore_ops E object_id)]\<rparr>) = Inr w'"
        by (auto split: if_splits)
      from Cons.IH[OF this] show ?thesis by simp
    qed
  qed
qed

lemma restore_checkpoint_trace:
  "restore_checkpoint E L allow_partial w = Inr w' \<Longrightarrow> trace w' = trace w @ [CheckpointRestored]"
  by (auto simp: restore_checkpoint_def log_event_def dest!: wire_restore_ops_trace
           split: sum.splits if_splits)


text \<open>
  C10. When the options do not skip the checkpoint and the constructor's last statements
  complete, the checkpoint has been restored first, and then \<open>_initialize\<close> has been
  called on every node of \<open>self._nodes\<close> that is a capturable resource, in the order of
  the nodes: the log holds the restore followed by one initialization for each of them,
  with the operation the call returned; outside eager execution each of these operations
  has been appended to the collection \<open>TABLE_INITIALIZERS\<close>, and in eager execution
  the collection is as the restore left it.
\<close>

theorem resources_initialized_after_restore:
  assumes "\<not> experimental_skip_checkpoint options"
    and "restore_and_initialize E L options w = Inr w'"
  shows "\<exists>w1 init_ops.
     restore_checkpoint E L (allow_partial_checkpoint options) w = Inr w1 \<and>
     map (call_initialize E w1) (filter (py_is is_capturable_resource (heap w1)) (loader_nodes L)) =
       map Inr init_ops \<and>
     trace w' = trace w @ [CheckpointRestored] @
       map2 Initialized (filter (py_is is_capturable_resource (heap w1)) (loader_nodes L)) init_ops \<and>
     table_initializers w' =
       (if executing_eagerly E then table_initializers w1
        else table_initializers w1 @ map Item init_ops)"
proof -
  from assms obtain w1 where
    r: "restore_checkpoint E L (allow_partial_checkpoint options) w = Inr w1"
    and i: "initialize_resources E (loader_nodes L) w1 = Inr w'"
    by (auto simp: restore_and_initialize_def split: sum.splits)
  from initialize_resources_spec[OF i] obtain init_ops where
    "map (call_initialize E w1) (filter (py_is is_capturable_resource (heap w1)) (loader_nodes L)) =
       map Inr init_ops"
    "trace w' = trace w1 @
       map2 Initialized (filter (py_is is_capturable_resource (heap w1)) (loader_nodes L)) init_ops"
    "table_initializers w' =
       (if executing_eagerly E then table_initializers w1
        else table_initializers w1 @ map Item init_ops)"
    by blast
  with r restore_checkpoint_trace[OF r] show ?thesis by auto
qed

lemma graph_mode_env_simps:
  "persisted_entries (graph_mode_env entries objects) = entries"
  "saver_objects (graph_mode_env entries objects) h root = objects"
  "\<not> executing_eagerly (graph_mode_env entries objects)"
  "restore_ops (graph_mode_env entries objects) nid = []"
  "call_function (graph_mode_env entries objects) h f = Inr (Opaque 400)"
  by (simp_all add: graph_mode_env_def checkpoint_env_def example_env_def)

lemma capture_heap_resources:
  "filter (py_is is_capturable_resource capture_heap) (loader_nodes capture_loader) = [Ref 4]"
  by (simp add: capture_loader_def py_is_def capture_heap_def library_instance_def
        user_object_def restored_resource_def)

lemma capture_heap_initialize:
  "heap w = capture_heap \<Longrightarrow>
     call_initialize (graph_mode_env entries objects) w (Ref 4) = Inr (Opaque 400)"
  by (simp add: call_initialize_def capture_heap_def graph_mode_env_simps)


theorem resources_initialized_after_restore_witness:
  "\<not> experimental_skip_checkpoint default_options \<and>
   (\<exists>w'. restore_and_initialize (graph_mode_env [2] [2]) capture_loader default_options
            capture_world = Inr w' \<and>
         trace w' = [CheckpointRestored, Initialized (Ref 4) (Opaque 400)] \<and>
         table_initializers w' = [Item (Opaque 400)])"
proof -
  define w1 where "w1 = log_event CheckpointRestored capture_world"
  define w2 where "w2 = log_event (Initialized (Ref 4) (Opaque 400))
                          (w1\<lparr>table_initializers := table_initializers w1 @ [Item (Opaque 400)]\<rparr>)"
  have skip: "\<not> experimental_skip_checkpoint default_options"
    by (simp add: default_options_def)
  have h1: "heap w1 = capture_heap" by (simp add: w1_def log_event_def capture_world_def)
  have r: "restore_checkpoint (graph_mode_env [2] [2]) capture_loader
             (allow_partial_checkpoint default_options) capture_world = Inr w1"
    by (simp add: restore_checkpoint_def default_options_def get_node_def capture_loader_def
          saver_restore_def graph_mode_env_simps assert_existing_objects_matched_def w1_def)
  have tests: "\<not> py_is is_capturable_resource capture_heap (Ref 0)"
    "\<not> py_is is_capturable_resource capture_heap (Ref (Suc 0))"
    "\<not> py_is is_capturable_resource capture_heap (Ref 2)"
    "\<not> py_is is_capturable_resource capture_heap (Ref 3)"
    "py_is is_capturable_resource capture_heap (Ref 4)"
    "\<not> py_is is_capturable_resource capture_heap (Ref 5)"
    "\<not> py_is is_capturable_resource capture_heap PyNone"
    by (simp_all add: py_is_def capture_heap_def library_instance_def user_object_def
          restored_resource_def)
  have i: "initialize_resources (graph_mode_env [2] [2]) (loader_nodes capture_loader) w1 = Inr w2"
    by (simp add: capture_loader_def h1 tests capture_heap_initialize[OF h1]
          graph_mode_env_simps w2_def log_event_def)
  have e: "restore_and_initialize (graph_mode_env [2] [2]) capture_loader default_options
            capture_world = Inr w2"
    using skip r i by (simp add: restore_and_initialize_def)
  from resources_initialized_after_restore[OF skip e] obtain w1' init_ops where
    T: "restore_checkpoint (graph_mode_env [2] [2]) capture_loader
          (allow_partial_checkpoint default_options) capture_world = Inr w1'"
       "map (call_initialize (graph_mode_env [2] [2]) w1')
          (filter (py_is is_capturable_resource (heap w1')) (loader_nodes capture_loader)) =
        map Inr init_ops"
       "trace w2 = trace capture_world @ [CheckpointRestored] @
          map2 Initialized
            (filter (py_is is_capturable_resource (heap w1')) (loader_nodes capture_loader))
            init_ops"
       "table_initializers w2 =
          (if executing_eagerly (graph_mode_env [2] [2]) then table_initializers w1'
           else table_initializers w1' @ map Item init_ops)"
    by blast
  from T(1) r have w1': "w1' = w1" by simp
  have ops: "init_ops = [Opaque 400]"
    using T(2) by (auto simp: w1' h1 capture_heap_resources capture_heap_initialize[OF h1])
  have "trace w2 = [CheckpointRestored, Initialized (Ref 4) (Opaque 400)]"
    using T(3) by (simp add: w1' h1 capture_heap_resources ops capture_world_def empty_world_def)
  moreover have "table_initializers w2 = [Item (Opaque 400)]"
    using T(4)
    by (simp add: w1' ops graph_mode_env_simps w1_def log_event_def capture_world_def
          empty_world_def)
  ultimately show ?thesis using skip e by blast
qed

end
